theory Spec2Isabelle
  imports Main "HOL-Library.Sublist"
begin

section \<open>Data model of \<^verbatim>\<open>fastapi_quickcrud/crud_router.py\<close>\<close>

text \<open>
  The values the router handles. A result row of the execution engine always has at
  least one column, so a \<^verbatim>\<open>Row\<close> is a first column and the remaining ones; the
  column values themselves (ORM entities, keys) are left abstract as \<open>'v\<close>.
  \<open>pyval\<close> is the universe of Python values handed to \<^verbatim>\<open>parse_obj_as\<close>: a single
  column value, a row, a dict literal \<^verbatim>\<open>{name: value}\<close> and a list of those.
\<close>

datatype 'v row = Row (col0: 'v) (more_cols: "'v list")

datatype 'v pyval =
    Val 'v
  | RowV "'v row"
  | DictV "(string \<times> 'v) list"
  | ListV "'v pyval list"

text \<open>A validated model object: its \<^verbatim>\<open>__dict__\<close>, a field may hold \<^verbatim>\<open>None\<close>.\<close>

type_synonym 'v model_obj = "(string \<times> 'v option) list"

datatype 'v body = Single "'v model_obj" | Many "'v model_obj list"

fun entities :: "'v body \<Rightarrow> nat" where
  "entities (Single obj) = 1"
| "entities (Many objs) = length objs"

text \<open>The exceptions that the router raises, re-raises or lets through.\<close>

datatype exn =
    MultipleResultsFound
  | ValidationError
  | ValueError
  | AssertionError
  | IntegrityError "string list"
  | FindOneApiNotRegister nat string
  | OtherError string

text \<open>
  What a handler hands back to the framework: a model object (the route's declared
  status code applies), a bare \<^verbatim>\<open>Response(status_code=...)\<close> without body, or a
  \<^verbatim>\<open>RedirectResponse(url, status_code=...)\<close>.
\<close>

datatype 'v artifact =
    Body "'v body"
  | Resp nat
  | Redirect string nat

definition NO_CONTENT :: nat where "NO_CONTENT = 204"
definition CONFLICT :: nat where "CONFLICT = 409"
definition SEE_OTHER :: nat where "SEE_OTHER = 303"

datatype CrudMethods =
    FIND_ONE | FIND_MANY | UPSERT_ONE | UPSERT_MANY | DELETE_ONE | DELETE_MANY
  | POST_REDIRECT_GET | PATCH_ONE | PATCH_MANY | UPDATE_ONE | UPDATE_MANY

text \<open>
  The \<^verbatim>\<open>status_code\<close> of each route decorator in \<^verbatim>\<open>crud_router_builder\<close>
  (\<^verbatim>\<open>api.get("", ...)\<close> of find-many gives none, the framework's default 200).
\<close>

fun declared_status :: "CrudMethods \<Rightarrow> nat" where
  "declared_status FIND_ONE = 200"
| "declared_status FIND_MANY = 200"
| "declared_status UPSERT_ONE = 201"
| "declared_status UPSERT_MANY = 201"
| "declared_status DELETE_ONE = 200"
| "declared_status DELETE_MANY = 200"
| "declared_status POST_REDIRECT_GET = 303"
| "declared_status PATCH_ONE = 200"
| "declared_status PATCH_MANY = 200"
| "declared_status UPDATE_ONE = 200"
| "declared_status UPDATE_MANY = 200"

fun http_status :: "CrudMethods \<Rightarrow> 'v artifact \<Rightarrow> nat" where
  "http_status k (Body b) = declared_status k"
| "http_status k (Resp c) = c"
| "http_status k (Redirect url c) = c"

subsection \<open>Session, response headers and the order of effects\<close>

text \<open>
  The effects of one request, in the order they happen: the statement runs in the
  execution engine, the session's cached rows are expired, the cursor is read, a value
  passes \<^verbatim>\<open>parse_obj_as\<close>, a response header is written, the session is committed or
  rolled back.
\<close>

datatype event =
    StmtRun
  | ExpireAll
  | ResultRead
  | SchemaConverted
  | HeaderSet string string
  | Commit
  | Rollback

record world =
  headers :: "string \<rightharpoonup> string"
  trace :: "event list"

type_synonym 'a io = "world \<Rightarrow> (exn + 'a) \<times> world"

definition return :: "'a \<Rightarrow> 'a io" where
  "return a = (\<lambda>w. (Inr a, w))"

definition raise :: "exn \<Rightarrow> 'a io" where
  "raise e = (\<lambda>w. (Inl e, w))"

definition bind :: "'a io \<Rightarrow> ('a \<Rightarrow> 'b io) \<Rightarrow> 'b io" where
  "bind m f = (\<lambda>w. case m w of (Inl e, w') \<Rightarrow> (Inl e, w') | (Inr a, w') \<Rightarrow> f a w')"

definition log :: "event \<Rightarrow> world \<Rightarrow> world" where
  "log e w = w\<lparr>trace := trace w @ [e]\<rparr>"

definition emit :: "event \<Rightarrow> unit io" where
  "emit e = (\<lambda>w. (Inr (), log e w))"

definition lift :: "exn + 'a \<Rightarrow> 'a io" where
  "lift r = (\<lambda>w. (r, w))"

text \<open>\<^verbatim>\<open>fastapi_response.headers[k] = v\<close>\<close>

definition set_header :: "string \<Rightarrow> string \<Rightarrow> unit io" where
  "set_header k v = (\<lambda>w. (Inr (), log (HeaderSet k v) (w\<lparr>headers := (headers w)(k \<mapsto> v)\<rparr>)))"

record config =
  async_mode :: bool
  autocommit :: bool
  primary_name :: string

subsection \<open>Python built-ins used by the router\<close>

text \<open>\<^verbatim>\<open>str(n)\<close> of a non-negative integer: its decimal digits.\<close>

definition digit_char :: "nat \<Rightarrow> char" where
  "digit_char d = ''0123456789'' ! d"

function str_nat :: "nat \<Rightarrow> string" where
  "str_nat n = (if n < 10 then [digit_char n] else str_nat (n div 10) @ [digit_char (n mod 10)])"
  by pat_completeness auto
termination
  by (relation "measure id") auto

declare str_nat.simps [simp del]

text \<open>\<^verbatim>\<open>s.upper()\<close> on ASCII text.\<close>

definition upper_char :: "char \<Rightarrow> char" where
  "upper_char c =
     (let n = (of_char c :: nat) in if 97 \<le> n \<and> n \<le> 122 then char_of (n - 32) else c)"

definition upper :: "string \<Rightarrow> string" where
  "upper s = map upper_char s"

text \<open>
  Tuple unpacking \<^verbatim>\<open>x, = xs\<close>: exactly one element, otherwise Python raises
  \<^verbatim>\<open>ValueError\<close>.
\<close>

fun unpack1 :: "'a list \<Rightarrow> exn + 'a" where
  "unpack1 [x] = Inr x"
| "unpack1 xs = Inl ValueError"

subsection \<open>The response schema\<close>

text \<open>
  Modelled from the spec: \<^verbatim>\<open>pydantic.parse_obj_as\<close> and the response models built by
  \<^verbatim>\<open>misc/crud_model.py\<close> are not among the sources. The spec says that ``response
  bodies conform to the declared schema for that kind; list-shaped kinds return an array,
  singular kinds return one object'' and that rows failing the schema are a fatal
  \<^emph>\<open>SchemaShapeMismatch\<close>. A response model is therefore either the schema of one object
  or the schema of a list of objects, given by the validator of one object; a list schema
  validates a list element by element, and a value of the wrong shape is rejected.
\<close>

datatype 'v response_model =
    ObjModel "'v pyval \<Rightarrow> 'v model_obj option"
  | ListModel "'v pyval \<Rightarrow> 'v model_obj option"

fun validate_all :: "('a \<Rightarrow> 'b option) \<Rightarrow> 'a list \<Rightarrow> 'b list option" where
  "validate_all p [] = Some []"
| "validate_all p (x # xs) =
     (case p x of None \<Rightarrow> None
      | Some y \<Rightarrow> (case validate_all p xs of None \<Rightarrow> None | Some ys \<Rightarrow> Some (y # ys)))"

fun parse_obj_as :: "'v response_model \<Rightarrow> 'v pyval \<Rightarrow> exn + 'v body" where
  "parse_obj_as (ObjModel p) (ListV xs) = Inl ValidationError"
| "parse_obj_as (ObjModel p) x =
     (case p x of None \<Rightarrow> Inl ValidationError | Some obj \<Rightarrow> Inr (Single obj))"
| "parse_obj_as (ListModel p) (ListV xs) =
     (case validate_all p xs of None \<Rightarrow> Inl ValidationError | Some objs \<Rightarrow> Inr (Many objs))"
| "parse_obj_as (ListModel p) x = Inl ValidationError"

text \<open>A call of \<^verbatim>\<open>parse_obj_as\<close> inside a handler: it raises or records the conversion.\<close>

definition parse :: "'v response_model \<Rightarrow> 'v pyval \<Rightarrow> 'v body io" where
  "parse rm x = bind (lift (parse_obj_as rm x)) (\<lambda>b. bind (emit SchemaConverted) (\<lambda>_. return b))"

subsection \<open>The cursor returned by the execution engine\<close>

record 'v cursor =
  rows :: "'v row list"
  rowcount :: int

text \<open>\<^verbatim>\<open>result.one_or_none()\<close>\<close>

fun one_or_none :: "'a list \<Rightarrow> exn + 'a option" where
  "one_or_none [] = Inr None"
| "one_or_none [r] = Inr (Some r)"
| "one_or_none rs = Inl MultipleResultsFound"

text \<open>\<^verbatim>\<open>result.scalars()\<close>: the first column of every row.\<close>

definition scalars :: "'v cursor \<Rightarrow> 'v list" where
  "scalars c = map col0 (rows c)"

section \<open>\<^verbatim>\<open>SQLALchemyResultParse\<close>\<close>

definition commit :: "config \<Rightarrow> unit io" where
  "commit cfg = (if autocommit cfg then emit Commit else return ())"

definition find_one :: "config \<Rightarrow> 'v response_model \<Rightarrow> 'v cursor \<Rightarrow> 'v artifact io" where
  "find_one cfg response_model sql_execute_result =
     bind (emit ResultRead) (\<lambda>_.
     bind (lift (one_or_none (rows sql_execute_result))) (\<lambda>one_row_data.
     case one_row_data of
       Some r \<Rightarrow>
         bind (parse response_model (Val (col0 r))) (\<lambda>result.
         bind (set_header ''x-total-count'' (str_nat 1)) (\<lambda>_.
         bind (commit cfg) (\<lambda>_.
         return (Body result))))
     | None \<Rightarrow>
         bind (commit cfg) (\<lambda>_.
         return (Resp NO_CONTENT))))"

definition find_many :: "config \<Rightarrow> 'v response_model \<Rightarrow> 'v cursor \<Rightarrow> 'v artifact io" where
  "find_many cfg response_model sql_execute_result =
     bind (emit ResultRead) (\<lambda>_.
     let result_list = map Val (scalars sql_execute_result) in
     bind (parse response_model (ListV result_list)) (\<lambda>result.
     bind (set_header ''x-total-count'' (str_nat (length result_list))) (\<lambda>_.
     bind (commit cfg) (\<lambda>_.
     return (Body result)))))"

definition update_one :: "config \<Rightarrow> 'v response_model \<Rightarrow> 'v cursor \<Rightarrow> 'v artifact io" where
  "update_one cfg response_model sql_execute_result =
     bind (emit ResultRead) (\<lambda>_.
     case rows sql_execute_result of
       [] \<Rightarrow> return (Resp NO_CONTENT)
     | query_result # _ \<Rightarrow>
         bind (set_header ''x-total-count'' (str_nat 1)) (\<lambda>_.
         bind (parse response_model (RowV query_result)) (\<lambda>result.
         bind (commit cfg) (\<lambda>_.
         return (Body result)))))"

definition update_many :: "config \<Rightarrow> 'v response_model \<Rightarrow> 'v cursor \<Rightarrow> 'v artifact io" where
  "update_many cfg response_model sql_execute_result =
     bind (emit ResultRead) (\<lambda>_.
     let result_list = map RowV (rows sql_execute_result) in
     if result_list = [] then return (Resp NO_CONTENT)
     else
       bind (set_header ''x-total-count'' (str_nat (length result_list))) (\<lambda>_.
       bind (parse response_model (ListV result_list)) (\<lambda>result.
       bind (commit cfg) (\<lambda>_.
       return (Body result)))))"

definition patch_one :: "config \<Rightarrow> 'v response_model \<Rightarrow> 'v cursor \<Rightarrow> 'v artifact io" where
  "patch_one cfg response_model sql_execute_result =
     bind (emit ResultRead) (\<lambda>_.
     case rows sql_execute_result of
       [] \<Rightarrow> return (Resp NO_CONTENT)
     | query_result # _ \<Rightarrow>
         bind (set_header ''x-total-count'' (str_nat 1)) (\<lambda>_.
         bind (parse response_model (RowV query_result)) (\<lambda>result.
         bind (commit cfg) (\<lambda>_.
         return (Body result)))))"

definition patch_many :: "config \<Rightarrow> 'v response_model \<Rightarrow> 'v cursor \<Rightarrow> 'v artifact io" where
  "patch_many cfg response_model sql_execute_result =
     bind (emit ResultRead) (\<lambda>_.
     let result_list = map RowV (rows sql_execute_result) in
     if result_list = [] then return (Resp NO_CONTENT)
     else
       bind (set_header ''x-total-count'' (str_nat (length result_list))) (\<lambda>_.
       bind (parse response_model (ListV result_list)) (\<lambda>result.
       bind (commit cfg) (\<lambda>_.
       return (Body result)))))"

text \<open>\<^verbatim>\<open>upsert_one\<close> receives the one row its handler has unpacked from the cursor.\<close>

definition upsert_one :: "config \<Rightarrow> 'v response_model \<Rightarrow> 'v row \<Rightarrow> 'v artifact io" where
  "upsert_one cfg response_model sql_execute_result =
     bind (parse response_model (RowV sql_execute_result)) (\<lambda>result.
     bind (set_header ''x-total-count'' (str_nat 1)) (\<lambda>_.
     bind (commit cfg) (\<lambda>_.
     return (Body result))))"

definition upsert_many :: "config \<Rightarrow> 'v response_model \<Rightarrow> 'v cursor \<Rightarrow> 'v artifact io" where
  "upsert_many cfg response_model sql_execute_result =
     bind (emit ResultRead) (\<lambda>_.
     let insert_result_list = map RowV (rows sql_execute_result) in
     bind (parse response_model (ListV insert_result_list)) (\<lambda>result.
     bind (set_header ''x-total-count'' (str_nat (length insert_result_list))) (\<lambda>_.
     bind (commit cfg) (\<lambda>_.
     return (Body result)))))"

text \<open>The list comprehension of \<^verbatim>\<open>delete_one\<close>: one \<^verbatim>\<open>parse_obj_as\<close> per returned key.\<close>

fun parse_each :: "'v response_model \<Rightarrow> 'v pyval list \<Rightarrow> 'v body list io" where
  "parse_each rm [] = return []"
| "parse_each rm (x # xs) =
     bind (parse rm x) (\<lambda>b. bind (parse_each rm xs) (\<lambda>bs. return (b # bs)))"

definition key_object :: "config \<Rightarrow> 'v \<Rightarrow> 'v pyval" where
  "key_object cfg i = DictV [(primary_name cfg, i)]"

definition delete_one :: "config \<Rightarrow> 'v response_model \<Rightarrow> 'v cursor \<Rightarrow> 'v artifact io" where
  "delete_one cfg response_model sql_execute_result =
     bind (emit ResultRead) (\<lambda>_.
     if rowcount sql_execute_result \<noteq> 0 then
       bind (parse_each response_model (map (key_object cfg) (scalars sql_execute_result))) (\<lambda>parsed.
       bind (lift (unpack1 parsed)) (\<lambda>result.
       bind (set_header ''x-total-count'' (str_nat 1)) (\<lambda>_.
       bind (commit cfg) (\<lambda>_.
       return (Body result)))))
     else
       bind (commit cfg) (\<lambda>_.
       return (Resp NO_CONTENT)))"

definition delete_many :: "config \<Rightarrow> 'v response_model \<Rightarrow> 'v cursor \<Rightarrow> 'v artifact io" where
  "delete_many cfg response_model sql_execute_result =
     bind (emit ResultRead) (\<lambda>_.
     if rowcount sql_execute_result \<noteq> 0 then
       let result_list = map (key_object cfg) (scalars sql_execute_result) in
       bind (parse response_model (ListV result_list)) (\<lambda>result.
       bind (set_header ''x-total-count'' (str_nat (length result_list))) (\<lambda>_.
       bind (commit cfg) (\<lambda>_.
       return (Body result))))
     else
       bind (commit cfg) (\<lambda>_.
       return (Resp NO_CONTENT)))"

subsection \<open>The redirect after a creation\<close>

record route =
  route_path :: string
  route_methods :: "string list"

record request =
  url_path :: string
  app_routes :: "route list"

text \<open>\<^verbatim>\<open>result.__dict__.pop(name, None)\<close>: the field's value, \<^verbatim>\<open>None\<close> when it is absent.\<close>

fun dict_pop :: "'v body \<Rightarrow> string \<Rightarrow> 'v option" where
  "dict_pop (Single obj) name = (case map_of obj name of None \<Rightarrow> None | Some v \<Rightarrow> v)"
| "dict_pop (Many objs) name = None"

text \<open>
  The loop over \<^verbatim>\<open>fastapi_request.app.routes\<close>; \<open>found\<close> is \<^verbatim>\<open>redirect_url_exist\<close>.
  A route at the end point is unpacked with \<^verbatim>\<open>route_request_method, = route.methods\<close>.
\<close>

fun scan_routes :: "string \<Rightarrow> route list \<Rightarrow> bool \<Rightarrow> exn + bool" where
  "scan_routes redirect_end_point [] found = Inr found"
| "scan_routes redirect_end_point (r # rs) found =
     (if route_path r = redirect_end_point then
        (case unpack1 (route_methods r) of
           Inl e \<Rightarrow> Inl e
         | Inr route_request_method \<Rightarrow>
             scan_routes redirect_end_point rs
               (if upper route_request_method = ''GET'' then True else found))
      else scan_routes redirect_end_point rs found)"

text \<open>
  The message of \<^verbatim>\<open>FindOneApiNotRegister\<close>. In the f-string, \<^verbatim>\<open>{ {self.primary_name} }\<close>
  formats a one-element set, so the name appears quoted inside braces (a column name has
  no quote or escape of its own).
\<close>

definition not_found_message :: "string \<Rightarrow> string \<Rightarrow> string" where
  "not_found_message url primary =
     ''End Point '' @ url @ ''/{'' @ [CHR 0x27] @ primary @ [CHR 0x27] @ ''}''
       @ '' with GET method not found''"

definition post_redirect_get ::
  "('v \<Rightarrow> string) \<Rightarrow> config \<Rightarrow> 'v response_model \<Rightarrow> 'v row \<Rightarrow> request \<Rightarrow> 'v artifact io" where
  "post_redirect_get str cfg response_model sql_execute_result fastapi_request =
     bind (parse response_model (RowV sql_execute_result)) (\<lambda>result.
     case dict_pop result (primary_name cfg) of
       None \<Rightarrow> raise AssertionError
     | Some primary_key_field \<Rightarrow>
         let redirect_url = url_path fastapi_request @ ''/'' @ str primary_key_field;
             redirect_end_point = url_path fastapi_request @ ''/{'' @ primary_name cfg @ ''}''
         in
         bind (lift (scan_routes redirect_end_point (app_routes fastapi_request) False))
           (\<lambda>redirect_url_exist.
         if \<not> redirect_url_exist then
           bind (emit Rollback) (\<lambda>_.
           raise (FindOneApiNotRegister 404
                    (not_found_message (url_path fastapi_request) (primary_name cfg))))
         else
           bind (commit cfg) (\<lambda>_.
           return (Redirect redirect_url SEE_OTHER))))"

section \<open>The handlers built by \<^verbatim>\<open>crud_router_builder\<close>\<close>

text \<open>
  What running the statement in the execution engine does: it raises or it returns a
  cursor. In blocking mode \<^verbatim>\<open>session.execute(stmt)\<close> runs the statement at the call;
  in suspending mode the call only creates a coroutine, and the statement runs when the
  handler awaits it (\<^verbatim>\<open>await _ if async_mode else _\<close>).
\<close>

datatype 'v exec_outcome = Raises exn | Returns "'v cursor"

datatype 'v pending = Done "'v cursor" | Coroutine "'v exec_outcome"

definition run_statement :: "'v exec_outcome \<Rightarrow> 'v cursor io" where
  "run_statement oc =
     bind (emit StmtRun) (\<lambda>_. case oc of Raises e \<Rightarrow> raise e | Returns c \<Rightarrow> return c)"

definition session_execute :: "config \<Rightarrow> 'v exec_outcome \<Rightarrow> 'v pending io" where
  "session_execute cfg oc =
     (if async_mode cfg then return (Coroutine oc)
      else bind (run_statement oc) (\<lambda>c. return (Done c)))"

definition await_if_async :: "config \<Rightarrow> 'v pending \<Rightarrow> 'v cursor io" where
  "await_if_async cfg p =
     (if async_mode cfg then
        (case p of Coroutine oc \<Rightarrow> run_statement oc
         | Done c \<Rightarrow> raise (OtherError ''TypeError''))
      else
        (case p of Done c \<Rightarrow> return c
         | Coroutine oc \<Rightarrow> raise (OtherError ''TypeError'')))"

text \<open>\<^verbatim>\<open>session.expire_all()\<close>\<close>

definition expire_all :: "unit io" where
  "expire_all = emit ExpireAll"

text \<open>The guard of the upsert and redirect handlers.\<close>

definition unique_marker :: string where
  "unique_marker = ''duplicate key value violates unique constraint''"

definition on_integrity_error :: "string list \<Rightarrow> 'v artifact io" where
  "on_integrity_error args =
     bind (lift (unpack1 args)) (\<lambda>err_msg.
     if \<not> sublist unique_marker err_msg then raise (IntegrityError args)
     else return (Resp CONFLICT))"

definition try_except_integrity :: "'a io \<Rightarrow> ('a \<Rightarrow> 'v artifact io) \<Rightarrow> 'v artifact io" where
  "try_except_integrity body rest =
     (\<lambda>w. case body w of
        (Inl (IntegrityError args), w') \<Rightarrow> on_integrity_error args w'
      | (Inl e, w') \<Rightarrow> (Inl e, w')
      | (Inr a, w') \<Rightarrow> rest a w')"

text \<open>\<^verbatim>\<open>query_result, = await _ if async_mode else _\<close>\<close>

definition unpack_cursor :: "'v cursor \<Rightarrow> 'v row io" where
  "unpack_cursor c = bind (emit ResultRead) (\<lambda>_. lift (unpack1 (rows c)))"

definition get_one_by_primary_key ::
  "config \<Rightarrow> 'v response_model \<Rightarrow> 'v exec_outcome \<Rightarrow> 'v artifact io" where
  "get_one_by_primary_key cfg response_model oc =
     bind (session_execute cfg oc) (\<lambda>p.
     bind (await_if_async cfg p) (\<lambda>query_result.
     find_one cfg response_model query_result))"

definition get_many ::
  "config \<Rightarrow> 'v response_model \<Rightarrow> 'v exec_outcome \<Rightarrow> 'v artifact io" where
  "get_many cfg response_model oc =
     bind (session_execute cfg oc) (\<lambda>p.
     bind (await_if_async cfg p) (\<lambda>query_result.
     find_many cfg response_model query_result))"

definition insert_one_and_support_upsert ::
  "config \<Rightarrow> 'v response_model \<Rightarrow> 'v exec_outcome \<Rightarrow> 'v artifact io" where
  "insert_one_and_support_upsert cfg response_model oc =
     try_except_integrity
       (bind (session_execute cfg oc) (\<lambda>p.
        bind (await_if_async cfg p) (\<lambda>c.
        unpack_cursor c)))
       (\<lambda>query_result. upsert_one cfg response_model query_result)"

definition insert_many_and_support_upsert ::
  "config \<Rightarrow> 'v response_model \<Rightarrow> 'v exec_outcome \<Rightarrow> 'v artifact io" where
  "insert_many_and_support_upsert cfg response_model oc =
     try_except_integrity
       (bind (session_execute cfg oc) (\<lambda>p.
        await_if_async cfg p))
       (\<lambda>query_result. upsert_many cfg response_model query_result)"

definition delete_one_by_primary_key ::
  "config \<Rightarrow> 'v response_model \<Rightarrow> 'v exec_outcome \<Rightarrow> 'v artifact io" where
  "delete_one_by_primary_key cfg response_model oc =
     bind (session_execute cfg oc) (\<lambda>p.
     bind expire_all (\<lambda>_.
     bind (await_if_async cfg p) (\<lambda>query_result.
     delete_one cfg response_model query_result)))"

definition delete_many_by_query ::
  "config \<Rightarrow> 'v response_model \<Rightarrow> 'v exec_outcome \<Rightarrow> 'v artifact io" where
  "delete_many_by_query cfg response_model oc =
     bind (session_execute cfg oc) (\<lambda>p.
     bind expire_all (\<lambda>_.
     bind (await_if_async cfg p) (\<lambda>query_result.
     delete_many cfg response_model query_result)))"

definition create_one_and_redirect_to_get_one_api_with_primary_key ::
  "('v \<Rightarrow> string) \<Rightarrow> config \<Rightarrow> 'v response_model \<Rightarrow> request \<Rightarrow> 'v exec_outcome
     \<Rightarrow> 'v artifact io" where
  "create_one_and_redirect_to_get_one_api_with_primary_key str cfg response_model request oc =
     try_except_integrity
       (bind (session_execute cfg oc) (\<lambda>p.
        bind (await_if_async cfg p) (\<lambda>c.
        unpack_cursor c)))
       (\<lambda>query_result. post_redirect_get str cfg response_model query_result request)"

definition partial_update_one_by_primary_key ::
  "config \<Rightarrow> 'v response_model \<Rightarrow> 'v exec_outcome \<Rightarrow> 'v artifact io" where
  "partial_update_one_by_primary_key cfg response_model oc =
     bind (session_execute cfg oc) (\<lambda>p.
     bind expire_all (\<lambda>_.
     bind (await_if_async cfg p) (\<lambda>query_result.
     patch_one cfg response_model query_result)))"

definition partial_update_many_by_query ::
  "config \<Rightarrow> 'v response_model \<Rightarrow> 'v exec_outcome \<Rightarrow> 'v artifact io" where
  "partial_update_many_by_query cfg response_model oc =
     bind (session_execute cfg oc) (\<lambda>p.
     bind expire_all (\<lambda>_.
     bind (await_if_async cfg p) (\<lambda>query_result.
     patch_many cfg response_model query_result)))"

definition entire_update_by_primary_key ::
  "config \<Rightarrow> 'v response_model \<Rightarrow> 'v exec_outcome \<Rightarrow> 'v artifact io" where
  "entire_update_by_primary_key cfg response_model oc =
     bind (session_execute cfg oc) (\<lambda>p.
     bind expire_all (\<lambda>_.
     bind (await_if_async cfg p) (\<lambda>query_result.
     update_one cfg response_model query_result)))"

definition entire_update_many_by_query ::
  "config \<Rightarrow> 'v response_model \<Rightarrow> 'v exec_outcome \<Rightarrow> 'v artifact io" where
  "entire_update_many_by_query cfg response_model oc =
     bind (session_execute cfg oc) (\<lambda>p.
     bind expire_all (\<lambda>_.
     bind (await_if_async cfg p) (\<lambda>query_result.
     update_many cfg response_model query_result)))"

text \<open>The table \<^verbatim>\<open>api_register\<close>: the handler of each operation kind.\<close>

fun api_register ::
  "CrudMethods \<Rightarrow> ('v \<Rightarrow> string) \<Rightarrow> config \<Rightarrow> 'v response_model \<Rightarrow> request
     \<Rightarrow> 'v exec_outcome \<Rightarrow> 'v artifact io" where
  "api_register FIND_ONE str cfg rm req oc = get_one_by_primary_key cfg rm oc"
| "api_register FIND_MANY str cfg rm req oc = get_many cfg rm oc"
| "api_register UPSERT_ONE str cfg rm req oc = insert_one_and_support_upsert cfg rm oc"
| "api_register UPSERT_MANY str cfg rm req oc = insert_many_and_support_upsert cfg rm oc"
| "api_register DELETE_ONE str cfg rm req oc = delete_one_by_primary_key cfg rm oc"
| "api_register DELETE_MANY str cfg rm req oc = delete_many_by_query cfg rm oc"
| "api_register POST_REDIRECT_GET str cfg rm req oc =
     create_one_and_redirect_to_get_one_api_with_primary_key str cfg rm req oc"
| "api_register PATCH_ONE str cfg rm req oc = partial_update_one_by_primary_key cfg rm oc"
| "api_register PATCH_MANY str cfg rm req oc = partial_update_many_by_query cfg rm oc"
| "api_register UPDATE_ONE str cfg rm req oc = entire_update_by_primary_key cfg rm oc"
| "api_register UPDATE_MANY str cfg rm req oc = entire_update_many_by_query cfg rm oc"

section \<open>Vocabulary of the properties\<close>

text \<open>The events that the commit step of a configuration adds.\<close>

definition commit_events :: "config \<Rightarrow> event list" where
  "commit_events cfg = (if autocommit cfg then [Commit] else [])"

text \<open>The value of the count header of a response.\<close>

definition count_header :: "world \<Rightarrow> string option" where
  "count_header w = headers w ''x-total-count''"

text \<open>
  The number a client reads from a header value: Python's \<^verbatim>\<open>int(s)\<close> on a string of
  decimal digits.
\<close>

definition digit_value :: "char \<Rightarrow> nat" where
  "digit_value c = of_char c - 48"

definition int_of_str :: "string \<Rightarrow> nat" where
  "int_of_str s = foldl (\<lambda>a c. 10 * a + digit_value c) 0 s"

text \<open>How many times a response header has been written.\<close>

fun is_header_set :: "event \<Rightarrow> bool" where
  "is_header_set (HeaderSet k v) = True"
| "is_header_set e = False"

definition header_writes :: "world \<Rightarrow> nat" where
  "header_writes w = length (filter is_header_set (trace w))"

text \<open>How many times the session has been committed.\<close>

definition commits :: "world \<Rightarrow> nat" where
  "commits w = length (filter (\<lambda>e. e = Commit) (trace w))"

text \<open>
  The state a handler reaches after its success steps, in the two orders found in
  \<^verbatim>\<open>SQLALchemyResultParse\<close>: conversion, header, commit step; or header, conversion,
  commit step.
\<close>

definition converted_then_counted :: "config \<Rightarrow> string \<Rightarrow> world \<Rightarrow> world" where
  "converted_then_counted cfg v w =
     snd (commit cfg (snd (set_header ''x-total-count'' v (log SchemaConverted w))))"

definition counted_then_converted :: "config \<Rightarrow> string \<Rightarrow> world \<Rightarrow> world" where
  "counted_then_converted cfg v w =
     snd (commit cfg (log SchemaConverted (snd (set_header ''x-total-count'' v w))))"

text \<open>
  The state in which the result interpreter starts on a cursor: after the statement has
  run, and for the update, patch and delete handlers after \<^verbatim>\<open>expire_all\<close>, which in
  suspending mode comes before the awaited statement.
\<close>

definition executed :: "world \<Rightarrow> world" where
  "executed w = log StmtRun w"

definition executed_and_expired :: "config \<Rightarrow> world \<Rightarrow> world" where
  "executed_and_expired cfg w =
     (if async_mode cfg then log StmtRun (log ExpireAll w) else log ExpireAll (log StmtRun w))"

text \<open>
  The claim's words for the redirect target: a route at the end point that answers GET is
  registered; and every route registered at the end point has exactly one method.
\<close>

definition get_route_registered :: "string \<Rightarrow> route list \<Rightarrow> bool" where
  "get_route_registered end_point rs =
     list_ex (\<lambda>r. route_path r = end_point \<and> list_ex (\<lambda>m. upper m = ''GET'') (route_methods r)) rs"

definition single_method_routes :: "string \<Rightarrow> route list \<Rightarrow> bool" where
  "single_method_routes end_point rs =
     list_all (\<lambda>r. route_path r = end_point \<longrightarrow> length (route_methods r) = 1) rs"

definition end_point_of :: "config \<Rightarrow> request \<Rightarrow> string" where
  "end_point_of cfg req = url_path req @ ''/{'' @ primary_name cfg @ ''}''"

section \<open>Sample requests\<close>

text \<open>Concrete inputs on which the properties below are exercised.\<close>

definition sync_config :: config where
  "sync_config = \<lparr>async_mode = False, autocommit = True, primary_name = ''id''\<rparr>"

definition async_config :: config where
  "async_config = \<lparr>async_mode = True, autocommit = True, primary_name = ''id''\<rparr>"

definition manual_config :: config where
  "manual_config = \<lparr>async_mode = False, autocommit = False, primary_name = ''id''\<rparr>"

definition fresh :: world where
  "fresh = \<lparr>headers = Map.empty, trace = []\<rparr>"

text \<open>A schema with the single field \<^verbatim>\<open>id\<close>, read from a key, a row or a dict.\<close>

fun id_schema :: "nat pyval \<Rightarrow> nat model_obj option" where
  "id_schema (Val v) = Some [(''id'', Some v)]"
| "id_schema (RowV r) = Some [(''id'', Some (col0 r))]"
| "id_schema (DictV kvs) =
     (case map_of kvs ''id'' of None \<Rightarrow> None | Some v \<Rightarrow> Some [(''id'', Some v)])"
| "id_schema (ListV xs) = None"

text \<open>A schema that every row fails.\<close>

definition no_schema :: "nat pyval \<Rightarrow> nat model_obj option" where
  "no_schema x = None"

definition no_rows :: "nat cursor" where
  "no_rows = \<lparr>rows = [], rowcount = 0\<rparr>"

definition keys_without_count :: "nat cursor" where
  "keys_without_count = \<lparr>rows = [], rowcount = 1\<rparr>"

definition stale_keys :: "nat cursor" where
  "stale_keys = \<lparr>rows = [Row 1 []], rowcount = 0\<rparr>"

definition duplicate_message :: string where
  "duplicate_message = ''ERROR: '' @ unique_marker @ '' items_pkey''"

definition other_message :: string where
  "other_message = ''null value in column''"

definition one_row :: "nat cursor" where
  "one_row = \<lparr>rows = [Row 7 []], rowcount = 1\<rparr>"

definition three_rows :: "nat cursor" where
  "three_rows = \<lparr>rows = [Row 1 [], Row 2 [], Row 3 []], rowcount = 3\<rparr>"

definition items_request :: request where
  "items_request =
     \<lparr>url_path = ''/items'',
      app_routes = [\<lparr>route_path = ''/items'', route_methods = [''POST'']\<rparr>,
                    \<lparr>route_path = ''/items/{id}'', route_methods = [''GET'']\<rparr>]\<rparr>"

definition items_request_without_read :: request where
  "items_request_without_read =
     \<lparr>url_path = ''/items'',
      app_routes = [\<lparr>route_path = ''/items'', route_methods = [''POST'']\<rparr>,
                    \<lparr>route_path = ''/items/{id}'', route_methods = [''DELETE'']\<rparr>]\<rparr>"

definition items_request_two_methods :: request where
  "items_request_two_methods =
     \<lparr>url_path = ''/items'',
      app_routes = [\<lparr>route_path = ''/items/{id}'', route_methods = [''GET'', ''HEAD'']\<rparr>]\<rparr>"

definition show_nat :: "nat \<Rightarrow> string" where
  "show_nat n = str_nat n"

section \<open>Facts about the model\<close>

subsection \<open>Effects\<close>

lemmas io_defs = return_def raise_def bind_def emit_def lift_def set_header_def commit_def
  parse_def expire_all_def

lemma headers_log [simp]: "headers (log e w) = headers w"
  by (simp add: log_def)

lemma trace_log [simp]: "trace (log e w) = trace w @ [e]"
  by (simp add: log_def)

lemma headers_commit [simp]: "headers (snd (commit cfg w)) = headers w"
  by (simp add: io_defs)

lemma trace_commit [simp]: "trace (snd (commit cfg w)) = trace w @ commit_events cfg"
  by (simp add: io_defs commit_events_def)

lemma fst_commit [simp]: "fst (commit cfg w) = Inr ()"
  by (simp add: io_defs)

lemma headers_set_header [simp]: "headers (snd (set_header k v w)) = (headers w)(k \<mapsto> v)"
  by (simp add: io_defs)

lemma trace_set_header [simp]: "trace (snd (set_header k v w)) = trace w @ [HeaderSet k v]"
  by (simp add: io_defs)

lemma str_nat_0 [simp]: "str_nat 0 = ''0''"
  by (simp add: str_nat.simps digit_char_def)

lemma str_nat_1 [simp]: "str_nat (Suc 0) = ''1''"
  by (simp add: str_nat.simps digit_char_def)

lemma digit_value_digit_char: "d < 10 \<Longrightarrow> digit_value (digit_char d) = d"
proof -
  assume "d < 10"
  then consider "d = 0" | "d = 1" | "d = 2" | "d = 3" | "d = 4" | "d = 5" | "d = 6"
    | "d = 7" | "d = 8" | "d = 9"
    by atomize_elim arith
  then show ?thesis
    by cases (simp_all add: digit_value_def digit_char_def)
qed

lemma int_of_str_snoc: "int_of_str (s @ [c]) = 10 * int_of_str s + digit_value c"
  by (simp add: int_of_str_def)

lemma int_of_str_str_nat: "int_of_str (str_nat n) = n"
proof (induction n rule: str_nat.induct)
  case (1 n)
  show ?case
  proof (cases "n < 10")
    case True
    then show ?thesis
      by (simp add: str_nat.simps [of n] int_of_str_def digit_value_digit_char)
  next
    case False
    with "1.IH" have "int_of_str (str_nat (n div 10)) = n div 10" by simp
    with False show ?thesis
      by (simp add: str_nat.simps [of n] int_of_str_snoc digit_value_digit_char)
  qed
qed

lemma int_of_str_1: "int_of_str ''1'' = Suc 0"
  using int_of_str_str_nat [of "Suc 0"] by simp

lemma count_header_converted [simp]:
  "count_header (converted_then_counted cfg v w) = Some v"
  by (simp add: count_header_def converted_then_counted_def)

lemma count_header_counted [simp]:
  "count_header (counted_then_converted cfg v w) = Some v"
  by (simp add: count_header_def counted_then_converted_def)

lemma trace_converted [simp]:
  "trace (converted_then_counted cfg v w)
     = trace w @ [SchemaConverted, HeaderSet ''x-total-count'' v] @ commit_events cfg"
  by (simp add: converted_then_counted_def)

lemma trace_counted [simp]:
  "trace (counted_then_converted cfg v w)
     = trace w @ [HeaderSet ''x-total-count'' v, SchemaConverted] @ commit_events cfg"
  by (simp add: counted_then_converted_def)

subsection \<open>Schema conversion\<close>

lemma validate_all_map: "validate_all p xs = Some ys \<Longrightarrow> map p xs = map Some ys"
  by (induction xs arbitrary: ys) (auto split: option.splits)

lemma validate_all_length: "validate_all p xs = Some ys \<Longrightarrow> length ys = length xs"
  using validate_all_map [of p xs ys] by (metis length_map)

lemma validate_all_accepts:
  "list_all (\<lambda>x. p x \<noteq> None) xs \<Longrightarrow> validate_all p xs = Some (map (\<lambda>x. the (p x)) xs)"
  by (induction xs) auto

lemma parse_obj_as_error: "parse_obj_as rm x = Inl e \<Longrightarrow> e = ValidationError"
  by (cases "(rm, x)" rule: parse_obj_as.cases) (auto split: option.splits)

lemma parse_obj_as_list:
  "parse_obj_as rm (ListV xs) = Inr b \<Longrightarrow>
     \<exists>p objs. rm = ListModel p \<and> validate_all p xs = Some objs \<and> b = Many objs"
  by (cases rm) (auto split: option.splits)

lemma parse_obj_as_single:
  "parse_obj_as rm x = Inr b \<Longrightarrow> (\<And>xs. x \<noteq> ListV xs) \<Longrightarrow>
     \<exists>p obj. rm = ObjModel p \<and> p x = Some obj \<and> b = Single obj"
  by (cases "(rm, x)" rule: parse_obj_as.cases) (auto split: option.splits)

lemma parse_eq:
  "parse rm x w =
     (case parse_obj_as rm x of Inl e \<Rightarrow> (Inl e, w) | Inr b \<Rightarrow> (Inr b, log SchemaConverted w))"
  by (simp add: io_defs split: sum.splits)

lemma convert_count_commit:
  "bind (parse rm x) (\<lambda>result. bind (set_header ''x-total-count'' v) (\<lambda>_.
     bind (commit cfg) (\<lambda>_. return (Body result)))) w =
   (case parse_obj_as rm x of
      Inl e \<Rightarrow> (Inl e, w)
    | Inr b \<Rightarrow> (Inr (Body b), converted_then_counted cfg v w))"
  by (simp add: io_defs converted_then_counted_def split: sum.splits)

lemma count_convert_commit:
  "bind (set_header ''x-total-count'' v) (\<lambda>_. bind (parse rm x) (\<lambda>result.
     bind (commit cfg) (\<lambda>_. return (Body result)))) w =
   (case parse_obj_as rm x of
      Inl e \<Rightarrow> (Inl e, snd (set_header ''x-total-count'' v w))
    | Inr b \<Rightarrow> (Inr (Body b), counted_then_converted cfg v w))"
  by (simp add: io_defs counted_then_converted_def split: sum.splits)

subsection \<open>The result interpreter, one equation per kind\<close>

lemma find_one_eq:
  "find_one cfg rm cur w =
     (case rows cur of
        [] \<Rightarrow> (Inr (Resp NO_CONTENT), snd (commit cfg (log ResultRead w)))
      | [r] \<Rightarrow> (case parse_obj_as rm (Val (col0 r)) of
                 Inl e \<Rightarrow> (Inl e, log ResultRead w)
               | Inr b \<Rightarrow> (Inr (Body b), converted_then_counted cfg ''1'' (log ResultRead w)))
      | _ \<Rightarrow> (Inl MultipleResultsFound, log ResultRead w))"
  unfolding find_one_def
  by (simp add: io_defs converted_then_counted_def split: list.splits sum.splits)

lemma find_many_eq:
  "find_many cfg rm cur w =
     (case parse_obj_as rm (ListV (map Val (scalars cur))) of
        Inl e \<Rightarrow> (Inl e, log ResultRead w)
      | Inr b \<Rightarrow> (Inr (Body b),
          converted_then_counted cfg (str_nat (length (rows cur))) (log ResultRead w)))"
  unfolding find_many_def
  by (simp add: io_defs converted_then_counted_def scalars_def Let_def split: list.splits sum.splits)


lemma update_one_eq:
  "update_one cfg rm cur w =
     (case rows cur of
        [] \<Rightarrow> (Inr (Resp NO_CONTENT), log ResultRead w)
      | r # _ \<Rightarrow> (case parse_obj_as rm (RowV r) of
                 Inl e \<Rightarrow> (Inl e, snd (set_header ''x-total-count'' ''1'' (log ResultRead w)))
               | Inr b \<Rightarrow> (Inr (Body b), counted_then_converted cfg ''1'' (log ResultRead w))))"
  unfolding update_one_def
  by (simp add: io_defs counted_then_converted_def split: list.splits sum.splits)

lemma patch_one_eq: "patch_one cfg rm cur w = update_one cfg rm cur w"
  by (simp add: patch_one_def update_one_def)

lemma update_many_eq:
  "update_many cfg rm cur w =
     (if rows cur = [] then (Inr (Resp NO_CONTENT), log ResultRead w)
      else (case parse_obj_as rm (ListV (map RowV (rows cur))) of
              Inl e \<Rightarrow> (Inl e, snd (set_header ''x-total-count'' (str_nat (length (rows cur)))
                                   (log ResultRead w)))
            | Inr b \<Rightarrow> (Inr (Body b),
                counted_then_converted cfg (str_nat (length (rows cur))) (log ResultRead w))))"
  unfolding update_many_def
  by (simp add: io_defs counted_then_converted_def Let_def split: sum.splits)

lemma patch_many_eq: "patch_many cfg rm cur w = update_many cfg rm cur w"
  by (simp add: patch_many_def update_many_def)

lemma upsert_one_eq:
  "upsert_one cfg rm r w =
     (case parse_obj_as rm (RowV r) of
        Inl e \<Rightarrow> (Inl e, w)
      | Inr b \<Rightarrow> (Inr (Body b), converted_then_counted cfg ''1'' w))"
  unfolding upsert_one_def by (simp add: convert_count_commit)

lemma upsert_many_eq:
  "upsert_many cfg rm cur w =
     (case parse_obj_as rm (ListV (map RowV (rows cur))) of
        Inl e \<Rightarrow> (Inl e, log ResultRead w)
      | Inr b \<Rightarrow> (Inr (Body b),
          converted_then_counted cfg (str_nat (length (rows cur))) (log ResultRead w)))"
  unfolding upsert_many_def
  by (simp add: io_defs converted_then_counted_def Let_def split: sum.splits)

lemma delete_many_eq:
  "delete_many cfg rm cur w =
     (if rowcount cur \<noteq> 0 then
        (case parse_obj_as rm (ListV (map (key_object cfg) (scalars cur))) of
           Inl e \<Rightarrow> (Inl e, log ResultRead w)
         | Inr b \<Rightarrow> (Inr (Body b),
             converted_then_counted cfg (str_nat (length (rows cur))) (log ResultRead w)))
      else (Inr (Resp NO_CONTENT), snd (commit cfg (log ResultRead w))))"
  unfolding delete_many_def
  by (simp add: io_defs converted_then_counted_def scalars_def Let_def split: sum.splits)

lemma parse_each_result:
  "parse_each rm xs w = (r, w') \<Longrightarrow>
     headers w' = headers w \<and> commits w' = commits w \<and>
     (case r of Inl e \<Rightarrow> e = ValidationError | Inr bs \<Rightarrow> length bs = length xs)"
proof (induction xs arbitrary: w r w')
  case Nil
  then show ?case by (auto simp: return_def)
next
  case (Cons x xs)
  show ?case
  proof (cases "parse_obj_as rm x")
    case (Inl e)
    with Cons.prems show ?thesis
      by (auto simp: bind_def parse_eq dest: parse_obj_as_error)
  next
    case (Inr b)
    obtain r2 w2 where rest: "parse_each rm xs (log SchemaConverted w) = (r2, w2)"
      by (cases "parse_each rm xs (log SchemaConverted w)")
    from Cons.IH [OF rest]
    have ih: "headers w2 = headers w" "commits w2 = commits w"
      "case r2 of Inl e \<Rightarrow> e = ValidationError | Inr bs \<Rightarrow> length bs = length xs"
      by (simp_all add: commits_def)
    from Cons.prems Inr rest ih show ?thesis
      by (cases r2) (auto simp: bind_def parse_eq return_def)
  qed
qed

lemma delete_one_eq:
  "delete_one cfg rm cur w =
     (if rowcount cur \<noteq> 0 then
        (case parse_each rm (map (key_object cfg) (scalars cur)) (log ResultRead w) of
           (Inl e, w1) \<Rightarrow> (Inl e, w1)
         | (Inr bs, w1) \<Rightarrow>
             (case bs of [b] \<Rightarrow> (Inr (Body b), snd (commit cfg (snd (set_header ''x-total-count'' ''1'' w1))))
              | _ \<Rightarrow> (Inl ValueError, w1)))
      else (Inr (Resp NO_CONTENT), snd (commit cfg (log ResultRead w))))"
  unfolding delete_one_def
  by (simp add: io_defs split: sum.splits prod.splits list.splits)

lemma delete_one_single:
  assumes "rowcount cur \<noteq> 0" "rows cur = [r]"
  shows "delete_one cfg rm cur w =
     (case parse_obj_as rm (key_object cfg (col0 r)) of
        Inl e \<Rightarrow> (Inl e, log ResultRead w)
      | Inr b \<Rightarrow> (Inr (Body b), converted_then_counted cfg ''1'' (log ResultRead w)))"
  using assms
  by (simp add: delete_one_eq scalars_def bind_def parse_eq return_def converted_then_counted_def
      split: sum.splits)

lemma delete_one_not_single:
  assumes "rowcount cur \<noteq> 0" "length (rows cur) \<noteq> 1"
  shows "\<exists>e w'. delete_one cfg rm cur w = (Inl e, w') \<and> (e = ValueError \<or> e = ValidationError)
           \<and> headers w' = headers w \<and> commits w' = commits w"
proof -
  let ?xs = "map (key_object cfg) (scalars cur)"
  obtain r1 w1 where p: "parse_each rm ?xs (log ResultRead w) = (r1, w1)"
    by (cases "parse_each rm ?xs (log ResultRead w)")
  from parse_each_result [OF p]
  have h: "headers w1 = headers w" "commits w1 = commits w"
    and r: "case r1 of Inl e \<Rightarrow> e = ValidationError | Inr bs \<Rightarrow> length bs = length ?xs"
    by (simp_all add: commits_def)
  show ?thesis
  proof (cases r1)
    case (Inl e)
    with p r h assms show ?thesis by (simp add: delete_one_eq)
  next
    case (Inr bs)
    with r assms have "length bs \<noteq> 1" by (simp add: scalars_def)
    then have "(case bs of [b] \<Rightarrow> (Inr (Body b), snd (commit cfg (snd (set_header ''x-total-count'' ''1'' w1))))
              | _ \<Rightarrow> (Inl ValueError, w1)) = (Inl ValueError, w1)"
      by (cases bs) (auto split: list.splits)
    with Inr p h assms show ?thesis by (simp add: delete_one_eq)
  qed
qed

subsection \<open>The handlers\<close>

lemma exec_returns:
  "bind (session_execute cfg (Returns c)) (\<lambda>p. bind (await_if_async cfg p) f) w
     = f c (executed w)"
  by (simp add: io_defs session_execute_def await_if_async_def run_statement_def executed_def)

lemma exec_raises:
  "bind (session_execute cfg (Raises e)) (\<lambda>p. bind (await_if_async cfg p) f) w
     = (Inl e, executed w)"
  by (simp add: io_defs session_execute_def await_if_async_def run_statement_def executed_def)

lemma exec_expire_returns:
  "bind (session_execute cfg (Returns c))
     (\<lambda>p. bind expire_all (\<lambda>_. bind (await_if_async cfg p) f)) w
     = f c (executed_and_expired cfg w)"
  by (simp add: io_defs session_execute_def await_if_async_def run_statement_def
      executed_and_expired_def)

lemma exec_expire_raises:
  "bind (session_execute cfg (Raises e))
     (\<lambda>p. bind expire_all (\<lambda>_. bind (await_if_async cfg p) f)) w
     = (Inl e, if async_mode cfg then log StmtRun (log ExpireAll w) else log StmtRun w)"
  by (simp add: io_defs session_execute_def await_if_async_def run_statement_def)

lemma exec_only_returns:
  "bind (session_execute cfg (Returns c)) (await_if_async cfg) w = (Inr c, executed w)"
  by (simp add: io_defs session_execute_def await_if_async_def run_statement_def executed_def)

lemma exec_only_raises:
  "bind (session_execute cfg (Raises e)) (await_if_async cfg) w = (Inl e, executed w)"
  by (simp add: io_defs session_execute_def await_if_async_def run_statement_def executed_def)

lemma unpack_cursor_eq:
  "unpack_cursor c w = (unpack1 (rows c), log ResultRead w)"
  by (simp add: unpack_cursor_def io_defs)

lemma unpack1_Inl: "unpack1 xs = Inl e \<Longrightarrow> e = ValueError \<and> length xs \<noteq> 1"
  by (cases xs rule: unpack1.cases) auto

lemma unpack1_Inr: "unpack1 xs = Inr x \<Longrightarrow> xs = [x]"
  by (cases xs rule: unpack1.cases) auto

lemma insert_one_returns:
  "insert_one_and_support_upsert cfg rm (Returns c) w =
     (case unpack1 (rows c) of
        Inl e \<Rightarrow> (Inl ValueError, log ResultRead (executed w))
      | Inr r \<Rightarrow> upsert_one cfg rm r (log ResultRead (executed w)))"
  unfolding insert_one_and_support_upsert_def try_except_integrity_def
  by (auto simp: exec_returns unpack_cursor_eq split: sum.splits exn.splits dest: unpack1_Inl)

lemma insert_one_raises:
  "insert_one_and_support_upsert cfg rm (Raises e) w =
     (case e of IntegrityError args \<Rightarrow> on_integrity_error args (executed w)
      | _ \<Rightarrow> (Inl e, executed w))"
  unfolding insert_one_and_support_upsert_def try_except_integrity_def
  by (simp add: exec_raises split: exn.splits)

lemma insert_many_returns:
  "insert_many_and_support_upsert cfg rm (Returns c) w = upsert_many cfg rm c (executed w)"
  unfolding insert_many_and_support_upsert_def try_except_integrity_def
  by (simp add: exec_only_returns)

lemma insert_many_raises:
  "insert_many_and_support_upsert cfg rm (Raises e) w =
     (case e of IntegrityError args \<Rightarrow> on_integrity_error args (executed w)
      | _ \<Rightarrow> (Inl e, executed w))"
  unfolding insert_many_and_support_upsert_def try_except_integrity_def
  by (simp add: exec_only_raises split: exn.splits)

lemma create_returns:
  "create_one_and_redirect_to_get_one_api_with_primary_key str cfg rm req (Returns c) w =
     (case unpack1 (rows c) of
        Inl e \<Rightarrow> (Inl ValueError, log ResultRead (executed w))
      | Inr r \<Rightarrow> post_redirect_get str cfg rm r req (log ResultRead (executed w)))"
  unfolding create_one_and_redirect_to_get_one_api_with_primary_key_def try_except_integrity_def
  by (auto simp: exec_returns unpack_cursor_eq split: sum.splits exn.splits dest: unpack1_Inl)

lemma create_raises:
  "create_one_and_redirect_to_get_one_api_with_primary_key str cfg rm req (Raises e) w =
     (case e of IntegrityError args \<Rightarrow> on_integrity_error args (executed w)
      | _ \<Rightarrow> (Inl e, executed w))"
  unfolding create_one_and_redirect_to_get_one_api_with_primary_key_def try_except_integrity_def
  by (simp add: exec_raises split: exn.splits)

lemma on_integrity_error_eq:
  "on_integrity_error [msg] w =
     (if sublist unique_marker msg then Inr (Resp CONFLICT) else Inl (IntegrityError [msg]), w)"
  by (simp add: on_integrity_error_def io_defs)

lemma commits_log [simp]:
  "commits (log e w) = (if e = Commit then Suc (commits w) else commits w)"
  by (simp add: commits_def)

lemma commits_commit [simp]:
  "commits (snd (commit cfg w)) = (if autocommit cfg then Suc (commits w) else commits w)"
  by (simp add: commits_def commit_events_def)

lemma commits_executed [simp]: "commits (executed w) = commits w"
  by (simp add: executed_def)

lemma commits_executed_and_expired [simp]: "commits (executed_and_expired cfg w) = commits w"
  by (simp add: executed_and_expired_def)

lemmas handler_defs =
  get_one_by_primary_key_def get_many_def delete_one_by_primary_key_def
  delete_many_by_query_def partial_update_one_by_primary_key_def
  partial_update_many_by_query_def entire_update_by_primary_key_def
  entire_update_many_by_query_def

lemmas sample_defs =
  sync_config_def async_config_def manual_config_def fresh_def no_schema_def no_rows_def
  one_row_def three_rows_def items_request_def items_request_without_read_def
  items_request_two_methods_def show_nat_def

section \<open>Empty results\<close>

text \<open>
  C5. For find-one, update-one, patch-one and delete-one, an outcome with zero rows (for
  delete-one: an affected rowcount of zero) yields a 204 response without body: the
  handler returns the bare response with status 204, never a body shaped by the response
  schema, and it writes no response header.
\<close>

theorem zero_rows_singular_no_content:
  assumes "k \<in> {FIND_ONE, UPDATE_ONE, PATCH_ONE} \<and> rows cur = []
           \<or> k = DELETE_ONE \<and> rowcount cur = 0"
  shows "fst (api_register k str cfg rm req (Returns cur) w) = Inr (Resp 204)
         \<and> http_status k (Resp 204 :: 'v artifact) = 204
         \<and> (\<nexists>b. fst (api_register k str cfg rm req (Returns cur) w) = Inr (Body b))
         \<and> headers (snd (api_register k str cfg rm req (Returns cur) w)) = headers w"
  using assms
  by (auto simp: handler_defs exec_returns exec_expire_returns find_one_eq update_one_eq
      patch_one_eq delete_one_eq NO_CONTENT_def executed_def executed_and_expired_def)

theorem zero_rows_singular_no_content_witness:
  "rowcount no_rows = 0
   \<and> fst (api_register DELETE_ONE show_nat sync_config (ObjModel id_schema) items_request
        (Returns no_rows) fresh) = Inr (Resp 204)
   \<and> rows no_rows = []
   \<and> fst (api_register FIND_ONE show_nat async_config (ObjModel id_schema) items_request
        (Returns no_rows) fresh) = Inr (Resp 204)
   \<and> fst (api_register UPDATE_ONE show_nat sync_config (ObjModel id_schema) items_request
        (Returns no_rows) fresh) = Inr (Resp 204)
   \<and> fst (api_register PATCH_ONE show_nat sync_config (ObjModel id_schema) items_request
        (Returns no_rows) fresh) = Inr (Resp 204)"
  using zero_rows_singular_no_content [of DELETE_ONE no_rows show_nat sync_config
          "ObjModel id_schema" items_request fresh]
        zero_rows_singular_no_content [of FIND_ONE no_rows show_nat async_config
          "ObjModel id_schema" items_request fresh]
        zero_rows_singular_no_content [of UPDATE_ONE no_rows show_nat sync_config
          "ObjModel id_schema" items_request fresh]
        zero_rows_singular_no_content [of PATCH_ONE no_rows show_nat sync_config
          "ObjModel id_schema" items_request fresh]
  by (simp add: no_rows_def)

text \<open>
  C9. Whatever the autocommit policy, the zero-row 204 path of update-one, update-many,
  patch-one and patch-many returns before the commit step: the session has been committed
  no more often than before the request. The 204 paths of find-one, delete-one and
  delete-many run the commit step before they return, so with autocommit enabled the
  session is committed once more.
\<close>

theorem no_content_commit_asymmetry:
  "(k \<in> {UPDATE_ONE, UPDATE_MANY, PATCH_ONE, PATCH_MANY} \<and> rows cur = [] \<longrightarrow>
      fst (api_register k str cfg rm req (Returns cur) w) = Inr (Resp 204)
      \<and> commits (snd (api_register k str cfg rm req (Returns cur) w)) = commits w)
   \<and> (k = FIND_ONE \<and> rows cur = [] \<or> k \<in> {DELETE_ONE, DELETE_MANY} \<and> rowcount cur = 0 \<longrightarrow>
      fst (api_register k str cfg rm req (Returns cur) w) = Inr (Resp 204)
      \<and> snd (api_register k str cfg rm req (Returns cur) w)
          = snd (commit cfg (log ResultRead
              (if k = FIND_ONE then executed w else executed_and_expired cfg w)))
      \<and> commits (snd (api_register k str cfg rm req (Returns cur) w))
          = (if autocommit cfg then Suc (commits w) else commits w))"
  by (auto simp: handler_defs exec_returns exec_expire_returns find_one_eq update_one_eq
      patch_one_eq delete_one_eq update_many_eq patch_many_eq delete_many_eq NO_CONTENT_def)

theorem no_content_commit_asymmetry_witness:
  "autocommit sync_config \<and> rows no_rows = [] \<and> rowcount no_rows = 0 \<and> commits fresh = 0
   \<and> commits (snd (api_register UPDATE_MANY show_nat sync_config (ListModel id_schema)
        items_request (Returns no_rows) fresh)) = 0
   \<and> commits (snd (api_register PATCH_ONE show_nat sync_config (ObjModel id_schema)
        items_request (Returns no_rows) fresh)) = 0
   \<and> commits (snd (api_register FIND_ONE show_nat sync_config (ObjModel id_schema)
        items_request (Returns no_rows) fresh)) = 1
   \<and> commits (snd (api_register DELETE_MANY show_nat sync_config (ListModel id_schema)
        items_request (Returns no_rows) fresh)) = 1"
proof -
  have start: "commits fresh = 0"
    by (simp add: commits_def fresh_def)
  show ?thesis
    using no_content_commit_asymmetry [of UPDATE_MANY no_rows show_nat sync_config
            "ListModel id_schema" items_request fresh]
          no_content_commit_asymmetry [of PATCH_ONE no_rows show_nat sync_config
            "ObjModel id_schema" items_request fresh]
          no_content_commit_asymmetry [of FIND_ONE no_rows show_nat sync_config
            "ObjModel id_schema" items_request fresh]
          no_content_commit_asymmetry [of DELETE_MANY no_rows show_nat sync_config
            "ListModel id_schema" items_request fresh]
          start
    by (simp add: no_rows_def sync_config_def)
qed

section \<open>List-shaped and delete kinds\<close>

lemma count_header_log [simp]: "count_header (log e w) = count_header w"
  by (simp add: count_header_def)

lemma headers_executed [simp]: "headers (executed w) = headers w"
  by (simp add: executed_def)

lemma headers_executed_and_expired [simp]: "headers (executed_and_expired cfg w) = headers w"
  by (simp add: executed_and_expired_def)

lemma find_many_handler:
  "get_many cfg rm (Returns cur) w = find_many cfg rm cur (executed w)"
  by (simp add: handler_defs exec_returns)

lemma update_many_handler:
  "entire_update_many_by_query cfg rm (Returns cur) w
     = update_many cfg rm cur (executed_and_expired cfg w)"
  by (simp add: handler_defs exec_expire_returns)

lemma patch_many_handler:
  "partial_update_many_by_query cfg rm (Returns cur) w
     = update_many cfg rm cur (executed_and_expired cfg w)"
  by (simp add: handler_defs exec_expire_returns patch_many_eq)

lemma delete_one_handler:
  "delete_one_by_primary_key cfg rm (Returns cur) w
     = delete_one cfg rm cur (executed_and_expired cfg w)"
  by (simp add: handler_defs exec_expire_returns)

lemma delete_many_handler:
  "delete_many_by_query cfg rm (Returns cur) w
     = delete_many cfg rm cur (executed_and_expired cfg w)"
  by (simp add: handler_defs exec_expire_returns)

text \<open>
  C6. For find-many, update-many and patch-many, an outcome whose realized row sequence is
  empty yields the kind's own empty behaviour: find-many (with its list schema) returns
  200 with the empty list and \<^verbatim>\<open>x-total-count\<close> 0, update-many and patch-many return
  204 without body and write no header. No kind returns a partially filled list: a body
  returned by one of the three is a list with one validated object per realized row.
\<close>

theorem zero_rows_list_kinds:
  "(rows cur = [] \<longrightarrow>
      fst (api_register FIND_MANY str cfg (ListModel p) req (Returns cur) w) = Inr (Body (Many []))
      \<and> http_status FIND_MANY (Body (Many []) :: 'v artifact) = 200
      \<and> count_header (snd (api_register FIND_MANY str cfg (ListModel p) req (Returns cur) w))
          = Some ''0''
      \<and> (k \<in> {UPDATE_MANY, PATCH_MANY} \<longrightarrow>
           fst (api_register k str cfg rm req (Returns cur) w) = Inr (Resp 204)
           \<and> http_status k (Resp 204 :: 'v artifact) = 204
           \<and> headers (snd (api_register k str cfg rm req (Returns cur) w)) = headers w))
   \<and> (k \<in> {FIND_MANY, UPDATE_MANY, PATCH_MANY}
        \<and> fst (api_register k str cfg rm req (Returns cur) w) = Inr (Body b) \<longrightarrow>
      (\<exists>q objs. rm = ListModel q \<and> b = Many objs \<and> length objs = length (rows cur)
         \<and> map Some objs
             = map (\<lambda>r. q (if k = FIND_MANY then Val (col0 r) else RowV r)) (rows cur)))"
proof (intro conjI impI)
  assume "rows cur = []"
  then show "fst (api_register FIND_MANY str cfg (ListModel p) req (Returns cur) w)
      = Inr (Body (Many []))"
    and "count_header (snd (api_register FIND_MANY str cfg (ListModel p) req (Returns cur) w))
          = Some ''0''"
    by (simp_all add: find_many_handler find_many_eq scalars_def)
next
  show "http_status FIND_MANY (Body (Many []) :: 'v artifact) = 200" by simp
next
  assume "rows cur = []" "k \<in> {UPDATE_MANY, PATCH_MANY}"
  then show "fst (api_register k str cfg rm req (Returns cur) w) = Inr (Resp 204)"
    and "http_status k (Resp 204 :: 'v artifact) = 204"
    and "headers (snd (api_register k str cfg rm req (Returns cur) w)) = headers w"
    by (auto simp: update_many_handler patch_many_handler update_many_eq NO_CONTENT_def)
next
  assume a: "k \<in> {FIND_MANY, UPDATE_MANY, PATCH_MANY}
        \<and> fst (api_register k str cfg rm req (Returns cur) w) = Inr (Body b)"
  show "\<exists>q objs. rm = ListModel q \<and> b = Many objs \<and> length objs = length (rows cur)
         \<and> map Some objs
             = map (\<lambda>r. q (if k = FIND_MANY then Val (col0 r) else RowV r)) (rows cur)"
  proof (cases "k = FIND_MANY")
    case True
    with a have "parse_obj_as rm (ListV (map Val (scalars cur))) = Inr b"
      by (auto simp: find_many_handler find_many_eq split: sum.splits)
    from parse_obj_as_list [OF this] obtain q objs where
      q: "rm = ListModel q" "validate_all q (map Val (scalars cur)) = Some objs" "b = Many objs"
      by blast
    from validate_all_map [OF q(2)] validate_all_length [OF q(2)] q True show ?thesis
      by (simp add: scalars_def comp_def)
  next
    case False
    with a have "parse_obj_as rm (ListV (map RowV (rows cur))) = Inr b"
      by (auto simp: update_many_handler patch_many_handler update_many_eq
          split: sum.splits if_splits)
    from parse_obj_as_list [OF this] obtain q objs where
      q: "rm = ListModel q" "validate_all q (map RowV (rows cur)) = Some objs" "b = Many objs"
      by blast
    from validate_all_map [OF q(2)] validate_all_length [OF q(2)] q False show ?thesis
      by (simp add: comp_def)
  qed
qed

lemma parse_each_accepts:
  "list_all (\<lambda>x. \<exists>b. parse_obj_as rm x = Inr b) xs \<Longrightarrow> \<exists>bs w'. parse_each rm xs w = (Inr bs, w')"
proof (induction xs arbitrary: w)
  case Nil
  then show ?case by (simp add: return_def)
next
  case (Cons x xs)
  then obtain b where b: "parse_obj_as rm x = Inr b" by auto
  from Cons.prems have "list_all (\<lambda>x. \<exists>b. parse_obj_as rm x = Inr b) xs" by simp
  from Cons.IH [OF this] obtain bs w'
    where "parse_each rm xs (log SchemaConverted w) = (Inr bs, w')"
    by blast
  with b show ?case by (simp add: bind_def parse_eq return_def)
qed

text \<open>
  C10. For delete-one with a non-zero affected rowcount, when the statement returns no key
  or more than one, the handler raises instead of producing a response artifact: a
  \<^verbatim>\<open>ValueError\<close> from the single-result unpacking when every key passes the schema
  (a \<^verbatim>\<open>ValidationError\<close> of a key can come first), with no header written and no
  commit.
\<close>

theorem delete_one_unpacking_raises:
  assumes "rowcount cur \<noteq> 0" and "length (scalars cur) \<noteq> 1"
  shows "\<exists>e. fst (api_register DELETE_ONE str cfg rm req (Returns cur) w) = Inl e
           \<and> (e = ValueError \<or> e = ValidationError)
           \<and> (list_all (\<lambda>i. \<exists>b. parse_obj_as rm (key_object cfg i) = Inr b) (scalars cur)
                \<longrightarrow> e = ValueError)
           \<and> headers (snd (api_register DELETE_ONE str cfg rm req (Returns cur) w)) = headers w
           \<and> commits (snd (api_register DELETE_ONE str cfg rm req (Returns cur) w)) = commits w"
proof -
  let ?w = "executed_and_expired cfg w"
  let ?xs = "map (key_object cfg) (scalars cur)"
  from assms have len: "length (rows cur) \<noteq> 1" by (simp add: scalars_def)
  from delete_one_not_single [OF assms(1) len, of cfg rm ?w]
  obtain e w' where d: "delete_one cfg rm cur ?w = (Inl e, w')"
    and e: "e = ValueError \<or> e = ValidationError"
    and h: "headers w' = headers ?w" "commits w' = commits ?w"
    by blast
  have "e = ValueError" if acc: "list_all (\<lambda>i. \<exists>b. parse_obj_as rm (key_object cfg i) = Inr b) (scalars cur)"
  proof -
    from acc have "list_all (\<lambda>x. \<exists>b. parse_obj_as rm x = Inr b) ?xs"
      by (simp add: list_all_iff)
    from parse_each_accepts [OF this, of "log ResultRead ?w"]
    obtain bs w1 where p: "parse_each rm ?xs (log ResultRead ?w) = (Inr bs, w1)" by blast
    with d assms(1) show ?thesis
      by (auto simp: delete_one_eq split: list.splits)
  qed
  with d e h show ?thesis
    by (simp add: delete_one_handler)
qed


lemmas interpreter_eqs =
  find_one_eq find_many_eq update_one_eq patch_one_eq update_many_eq patch_many_eq
  upsert_one_eq upsert_many_eq delete_many_eq

lemmas returns_eqs =
  find_many_handler update_many_handler patch_many_handler delete_one_handler
  delete_many_handler

theorem zero_rows_list_kinds_witness:
  "rows no_rows = []
   \<and> fst (api_register FIND_MANY show_nat sync_config (ListModel id_schema) items_request
        (Returns no_rows) fresh) = Inr (Body (Many []))
   \<and> count_header (snd (api_register FIND_MANY show_nat sync_config (ListModel id_schema)
        items_request (Returns no_rows) fresh)) = Some ''0''
   \<and> fst (api_register UPDATE_MANY show_nat sync_config (ListModel id_schema) items_request
        (Returns no_rows) fresh) = Inr (Resp 204)
   \<and> fst (api_register FIND_MANY show_nat sync_config (ListModel id_schema) items_request
        (Returns three_rows) fresh)
       = Inr (Body (Many [[(''id'', Some 1)], [(''id'', Some 2)], [(''id'', Some 3)]]))
   \<and> (\<exists>q objs. ListModel id_schema = ListModel q
         \<and> Many [[(''id'', Some 1)], [(''id'', Some 2)], [(''id'', Some 3)]] = Many objs
         \<and> length objs = length (rows three_rows))"
proof -
  have run: "fst (api_register FIND_MANY show_nat sync_config (ListModel id_schema)
        items_request (Returns three_rows) fresh)
       = Inr (Body (Many [[(''id'', Some 1)], [(''id'', Some 2)], [(''id'', Some 3)]]))"
    by (simp add: returns_eqs interpreter_eqs scalars_def three_rows_def)
  from zero_rows_list_kinds [where cur = no_rows and str = show_nat and cfg = sync_config
      and p = id_schema and req = items_request and w = fresh and k = UPDATE_MANY
      and rm = "ListModel id_schema"]
  have empty: "fst (api_register FIND_MANY show_nat sync_config (ListModel id_schema)
        items_request (Returns no_rows) fresh) = Inr (Body (Many []))"
    "count_header (snd (api_register FIND_MANY show_nat sync_config (ListModel id_schema)
        items_request (Returns no_rows) fresh)) = Some ''0''"
    "fst (api_register UPDATE_MANY show_nat sync_config (ListModel id_schema) items_request
        (Returns no_rows) fresh) = Inr (Resp 204)"
    by (simp_all add: no_rows_def)
  from zero_rows_list_kinds [where cur = three_rows and str = show_nat and cfg = sync_config
      and p = id_schema and req = items_request and w = fresh and k = FIND_MANY
      and rm = "ListModel id_schema"
      and b = "Many [[(''id'', Some 1)], [(''id'', Some 2)], [(''id'', Some 3)]]"] run
  have full: "\<exists>q objs. ListModel id_schema = ListModel q
         \<and> Many [[(''id'', Some 1)], [(''id'', Some 2)], [(''id'', Some 3)]] = Many objs
         \<and> length objs = length (rows three_rows)"
    by auto
  from run empty full show ?thesis
    by (simp add: no_rows_def)
qed

theorem delete_one_unpacking_raises_witness:
  "rowcount keys_without_count \<noteq> 0 \<and> length (scalars keys_without_count) \<noteq> 1
   \<and> rowcount three_rows \<noteq> 0 \<and> length (scalars three_rows) \<noteq> 1
   \<and> fst (api_register DELETE_ONE show_nat sync_config (ObjModel id_schema) items_request
        (Returns keys_without_count) fresh) = Inl ValueError
   \<and> fst (api_register DELETE_ONE show_nat sync_config (ObjModel id_schema) items_request
        (Returns three_rows) fresh) = Inl ValueError"
  using delete_one_unpacking_raises [where cur = keys_without_count and cfg = sync_config
          and rm = "ObjModel id_schema" and str = show_nat and req = items_request
          and w = fresh]
        delete_one_unpacking_raises [where cur = three_rows and cfg = sync_config
          and rm = "ObjModel id_schema" and str = show_nat and req = items_request
          and w = fresh]
  by (auto simp: keys_without_count_def three_rows_def scalars_def key_object_def sync_config_def)

text \<open>
  C7. For delete-one and delete-many the 204 branch is taken exactly when the affected
  rowcount is zero, whatever the returned key sequence holds. With a non-zero rowcount,
  the response delete-many returns is the route's 200 with the list of the validated
  key-objects \<^verbatim>\<open>{primary_name: key}\<close>, one per returned key, and \<^verbatim>\<open>x-total-count\<close>
  the length of that list; the response delete-one returns is the 200 with the single
  validated key-object and \<^verbatim>\<open>x-total-count\<close> 1. Both responses are returned whenever
  the keys pass the schema (for delete-one: the one returned key).
\<close>

theorem delete_branches_on_rowcount:
  "(k \<in> {DELETE_ONE, DELETE_MANY} \<longrightarrow>
      (fst (api_register k str cfg rm req (Returns cur) w) = Inr (Resp 204)) = (rowcount cur = 0))
   \<and> (rowcount cur \<noteq> 0 \<longrightarrow>
        (\<forall>a. fst (api_register DELETE_MANY str cfg rm req (Returns cur) w) = Inr a \<longrightarrow>
           (\<exists>q objs. rm = ListModel q \<and> a = Body (Many objs)
              \<and> map Some objs = map (\<lambda>i. q (DictV [(primary_name cfg, i)])) (scalars cur)
              \<and> count_header (snd (api_register DELETE_MANY str cfg rm req (Returns cur) w))
                  = Some (str_nat (length objs))
              \<and> http_status DELETE_MANY a = 200))
      \<and> (\<forall>a. fst (api_register DELETE_ONE str cfg rm req (Returns cur) w) = Inr a \<longrightarrow>
           (\<exists>q obj i. rm = ObjModel q \<and> scalars cur = [i]
              \<and> q (DictV [(primary_name cfg, i)]) = Some obj \<and> a = Body (Single obj)
              \<and> count_header (snd (api_register DELETE_ONE str cfg rm req (Returns cur) w))
                  = Some ''1''
              \<and> http_status DELETE_ONE a = 200))
      \<and> (rm = ListModel p
            \<and> list_all (\<lambda>i. p (DictV [(primary_name cfg, i)]) \<noteq> None) (scalars cur) \<longrightarrow>
           (\<exists>objs. fst (api_register DELETE_MANY str cfg rm req (Returns cur) w)
              = Inr (Body (Many objs))))
      \<and> (rm = ObjModel p \<and> scalars cur = [j] \<and> p (DictV [(primary_name cfg, j)]) = Some o1 \<longrightarrow>
           fst (api_register DELETE_ONE str cfg rm req (Returns cur) w)
             = Inr (Body (Single o1))))"
proof (intro conjI impI allI)
  assume "k \<in> {DELETE_ONE, DELETE_MANY}"
  moreover have "(fst (delete_many cfg rm cur w1) = Inr (Resp 204)) = (rowcount cur = 0)" for w1
    by (auto simp: delete_many_eq NO_CONTENT_def split: sum.splits)
  moreover have "(fst (delete_one cfg rm cur w1) = Inr (Resp 204)) = (rowcount cur = 0)" for w1
    by (auto simp: delete_one_eq NO_CONTENT_def split: sum.splits prod.splits list.splits)
  ultimately show "(fst (api_register k str cfg rm req (Returns cur) w) = Inr (Resp 204))
      = (rowcount cur = 0)"
    by (auto simp: returns_eqs)
next
  fix a
  assume nz: "rowcount cur \<noteq> 0"
    and r: "fst (api_register DELETE_MANY str cfg rm req (Returns cur) w) = Inr a"
  let ?xs = "map (key_object cfg) (scalars cur)"
  from nz r obtain b where b: "parse_obj_as rm (ListV ?xs) = Inr b" "a = Body b"
    by (auto simp: returns_eqs delete_many_eq split: sum.splits)
  from parse_obj_as_list [OF b(1)] obtain q objs where
    q: "rm = ListModel q" "validate_all q ?xs = Some objs" "b = Many objs"
    by blast
  from validate_all_length [OF q(2)] have len: "length objs = length (rows cur)"
    by (simp add: scalars_def)
  from validate_all_map [OF q(2)]
  have m: "map Some objs = map (\<lambda>i. q (DictV [(primary_name cfg, i)])) (scalars cur)"
    by (simp add: key_object_def comp_def)
  from nz b len
  have "count_header (snd (api_register DELETE_MANY str cfg rm req (Returns cur) w))
      = Some (str_nat (length objs))"
    by (simp add: returns_eqs delete_many_eq)
  with q b m
  show "\<exists>q objs. rm = ListModel q \<and> a = Body (Many objs)
          \<and> map Some objs = map (\<lambda>i. q (DictV [(primary_name cfg, i)])) (scalars cur)
          \<and> count_header (snd (api_register DELETE_MANY str cfg rm req (Returns cur) w))
              = Some (str_nat (length objs))
          \<and> http_status DELETE_MANY a = 200"
    by auto
next
  fix a
  assume nz: "rowcount cur \<noteq> 0"
    and r: "fst (api_register DELETE_ONE str cfg rm req (Returns cur) w) = Inr a"
  let ?w = "executed_and_expired cfg w"
  have one: "length (rows cur) = 1"
  proof (rule ccontr)
    assume "length (rows cur) \<noteq> 1"
    from delete_one_not_single [OF nz this, of cfg rm ?w] r show False
      by (auto simp: returns_eqs)
  qed
  then obtain r1 where rows: "rows cur = [r1]"
    by (cases "rows cur") auto
  from delete_one_single [OF nz rows, of cfg rm ?w] r
  obtain b where b: "parse_obj_as rm (key_object cfg (col0 r1)) = Inr b" "a = Body b"
    and w': "snd (delete_one cfg rm cur ?w) = converted_then_counted cfg ''1'' (log ResultRead ?w)"
    by (auto simp: returns_eqs split: sum.splits)
  from parse_obj_as_single [OF b(1)] obtain q obj where
    q: "rm = ObjModel q" "q (key_object cfg (col0 r1)) = Some obj" "b = Single obj"
    by (auto simp: key_object_def)
  from q b rows w'
  show "\<exists>q obj i. rm = ObjModel q \<and> scalars cur = [i]
          \<and> q (DictV [(primary_name cfg, i)]) = Some obj \<and> a = Body (Single obj)
          \<and> count_header (snd (api_register DELETE_ONE str cfg rm req (Returns cur) w))
              = Some ''1''
          \<and> http_status DELETE_ONE a = 200"
    by (auto simp: returns_eqs scalars_def key_object_def)
next
  assume nz: "rowcount cur \<noteq> 0"
    and acc: "rm = ListModel p
      \<and> list_all (\<lambda>i. p (DictV [(primary_name cfg, i)]) \<noteq> None) (scalars cur)"
  then have "list_all (\<lambda>x. p x \<noteq> None) (map (key_object cfg) (scalars cur))"
    by (simp add: list_all_iff key_object_def)
  from validate_all_accepts [OF this] nz acc
  show "\<exists>objs. fst (api_register DELETE_MANY str cfg rm req (Returns cur) w)
      = Inr (Body (Many objs))"
    by (simp add: returns_eqs delete_many_eq)
next
  assume nz: "rowcount cur \<noteq> 0"
    and acc: "rm = ObjModel p \<and> scalars cur = [j] \<and> p (DictV [(primary_name cfg, j)]) = Some o1"
  then obtain r1 where rows: "rows cur = [r1]" "col0 r1 = j"
    by (auto simp: scalars_def)
  from delete_one_single [OF nz rows(1)] acc rows
  show "fst (api_register DELETE_ONE str cfg rm req (Returns cur) w) = Inr (Body (Single o1))"
    by (simp add: returns_eqs key_object_def)
qed


lemma str_nat_digit: "n < 10 \<Longrightarrow> str_nat n = [digit_char n]"
  by (simp add: str_nat.simps)

theorem delete_branches_on_rowcount_witness:
  "rowcount stale_keys = 0
   \<and> fst (api_register DELETE_MANY show_nat sync_config (ListModel id_schema) items_request
        (Returns stale_keys) fresh) = Inr (Resp 204)
   \<and> rowcount keys_without_count \<noteq> 0
   \<and> fst (api_register DELETE_MANY show_nat sync_config (ListModel id_schema) items_request
        (Returns keys_without_count) fresh) \<noteq> Inr (Resp 204)
   \<and> rowcount three_rows \<noteq> 0
   \<and> fst (api_register DELETE_MANY show_nat sync_config (ListModel id_schema) items_request
        (Returns three_rows) fresh)
       = Inr (Body (Many [[(''id'', Some 1)], [(''id'', Some 2)], [(''id'', Some 3)]]))
   \<and> count_header (snd (api_register DELETE_MANY show_nat sync_config (ListModel id_schema)
        items_request (Returns three_rows) fresh)) = Some ''3''
   \<and> rowcount one_row \<noteq> 0
   \<and> fst (api_register DELETE_ONE show_nat sync_config (ObjModel id_schema) items_request
        (Returns one_row) fresh) = Inr (Body (Single [(''id'', Some 7)]))
   \<and> count_header (snd (api_register DELETE_ONE show_nat sync_config (ObjModel id_schema)
        items_request (Returns one_row) fresh)) = Some ''1''"
proof -
  note t = delete_branches_on_rowcount [where str = show_nat and cfg = sync_config
      and req = items_request and w = fresh]
  have nz0: "rowcount keys_without_count \<noteq> 0"
    and nz3: "rowcount three_rows \<noteq> 0"
    and nz1: "rowcount one_row \<noteq> 0"
    and z: "rowcount stale_keys = 0"
    by (simp_all add: keys_without_count_def three_rows_def one_row_def stale_keys_def)
  have is_many: "DELETE_MANY \<in> {DELETE_ONE, DELETE_MANY}"
    by simp
  from t [where k = DELETE_MANY and rm = "ListModel id_schema" and cur = stale_keys,
      THEN conjunct1, THEN mp, OF is_many] z
  have a: "fst (api_register DELETE_MANY show_nat sync_config (ListModel id_schema)
        items_request (Returns stale_keys) fresh) = Inr (Resp 204)"
    by blast
  from t [where k = DELETE_MANY and rm = "ListModel id_schema" and cur = keys_without_count,
      THEN conjunct1, THEN mp, OF is_many] nz0
  have b: "fst (api_register DELETE_MANY show_nat sync_config (ListModel id_schema)
        items_request (Returns keys_without_count) fresh) \<noteq> Inr (Resp 204)"
    by blast
  note many = t [where k = DELETE_MANY and rm = "ListModel id_schema" and cur = three_rows
      and p = id_schema, THEN conjunct2, THEN mp, OF nz3]
  have keys3: "scalars three_rows = [1, 2, 3]"
    by (simp add: scalars_def three_rows_def)
  have name: "primary_name sync_config = ''id''"
    by (simp add: sync_config_def)
  have acc: "ListModel id_schema = ListModel id_schema
      \<and> list_all (\<lambda>i. id_schema (DictV [(primary_name sync_config, i)]) \<noteq> None)
          (scalars three_rows)"
    by (simp add: keys3 name)
  from many [THEN conjunct2, THEN conjunct2, THEN conjunct1, THEN mp, OF acc]
  obtain objs where c0: "fst (api_register DELETE_MANY show_nat sync_config
      (ListModel id_schema) items_request (Returns three_rows) fresh) = Inr (Body (Many objs))"
    by blast
  from many [THEN conjunct1, THEN spec, THEN mp, OF c0]
  obtain q objs' where c1: "ListModel id_schema = ListModel q" "Body (Many objs) = Body (Many objs')"
    "map Some objs' = map (\<lambda>i. q (DictV [(primary_name sync_config, i)])) (scalars three_rows)"
    "count_header (snd (api_register DELETE_MANY show_nat sync_config (ListModel id_schema)
        items_request (Returns three_rows) fresh)) = Some (str_nat (length objs'))"
    by blast
  from c1(1) have q: "q = id_schema" by simp
  from c1(2) have same: "objs' = objs" by simp
  from c1(3) have "map Some objs = [Some [(''id'', Some 1)], Some [(''id'', Some 2)],
      Some [(''id'', Some 3)]]"
    by (simp add: q same keys3 name)
  then have objs: "objs = [[(''id'', Some 1)], [(''id'', Some 2)], [(''id'', Some 3)]]"
    by (simp add: map_eq_Cons_conv)
  have three: "str_nat (length objs) = ''3''"
    by (simp add: objs str_nat_digit digit_char_def)
  from c1(4) have c: "count_header (snd (api_register DELETE_MANY show_nat sync_config
      (ListModel id_schema) items_request (Returns three_rows) fresh)) = Some ''3''"
    by (simp only: same three)
  note single = t [where k = DELETE_ONE and rm = "ObjModel id_schema" and cur = one_row
      and p = id_schema and j = 7 and ?o1.0 = "[(''id'', Some 7)]",
      THEN conjunct2, THEN mp, OF nz1]
  have acc1: "ObjModel id_schema = ObjModel id_schema \<and> scalars one_row = [7]
      \<and> id_schema (DictV [(primary_name sync_config, 7)]) = Some [(''id'', Some 7)]"
    by (simp add: scalars_def one_row_def name)
  from single [THEN conjunct2, THEN conjunct2, THEN conjunct2, THEN mp, OF acc1]
  have d0: "fst (api_register DELETE_ONE show_nat sync_config (ObjModel id_schema)
        items_request (Returns one_row) fresh) = Inr (Body (Single [(''id'', Some 7)]))" .
  from single [THEN conjunct2, THEN conjunct1, THEN spec, THEN mp, OF d0]
  have d: "count_header (snd (api_register DELETE_ONE show_nat sync_config (ObjModel id_schema)
        items_request (Returns one_row) fresh)) = Some ''1''"
    by blast
  from z a nz0 b nz3 c0 objs c nz1 d0 d show ?thesis
    by blast
qed

section \<open>Conflicts\<close>

lemma trace_executed [simp]: "trace (executed w) = trace w @ [StmtRun]"
  by (simp add: executed_def)

text \<open>
  C3. For upsert-one, upsert-many and create-and-redirect: when running the statement
  raises an integrity failure whose message contains the unique-constraint marker, the
  handler returns a 409 response and the session is not committed; when the message does
  not contain the marker, the same failure is raised again, and no 409 is produced. In
  both cases the only effect is that the statement has run.
\<close>

theorem integrity_failure_conflict_or_reraise:
  assumes "k \<in> {UPSERT_ONE, UPSERT_MANY, POST_REDIRECT_GET}"
  shows "api_register k str cfg rm req (Raises (IntegrityError [msg])) w =
           (if sublist unique_marker msg then Inr (Resp 409) else Inl (IntegrityError [msg]),
            executed w)
         \<and> http_status k (Resp 409 :: 'v artifact) = 409
         \<and> commits (snd (api_register k str cfg rm req (Raises (IntegrityError [msg])) w))
             = commits w
         \<and> trace (snd (api_register k str cfg rm req (Raises (IntegrityError [msg])) w))
             = trace w @ [StmtRun]"
  using assms
  by (auto simp: insert_one_raises insert_many_raises create_raises on_integrity_error_eq
      CONFLICT_def)

lemma marker_in_message:
  "sublist unique_marker duplicate_message"
  unfolding duplicate_message_def by (rule sublist_appendI)

lemma marker_not_in_short: "\<not> sublist unique_marker other_message"
proof
  assume "sublist unique_marker other_message"
  then have "length unique_marker \<le> length other_message"
    by (rule sublist_length_le)
  then show False by (simp add: unique_marker_def other_message_def)
qed

theorem integrity_failure_conflict_or_reraise_witness:
  "UPSERT_ONE \<in> {UPSERT_ONE, UPSERT_MANY, POST_REDIRECT_GET}
   \<and> sublist unique_marker duplicate_message
   \<and> fst (api_register UPSERT_ONE show_nat sync_config (ObjModel id_schema) items_request
        (Raises (IntegrityError [duplicate_message])) fresh)
       = Inr (Resp 409)
   \<and> commits (snd (api_register UPSERT_ONE show_nat sync_config (ObjModel id_schema)
        items_request
        (Raises (IntegrityError [duplicate_message])) fresh))
       = 0
   \<and> \<not> sublist unique_marker other_message
   \<and> fst (api_register POST_REDIRECT_GET show_nat async_config (ObjModel id_schema)
        items_request (Raises (IntegrityError [other_message])) fresh)
       = Inl (IntegrityError [other_message])"
proof -
  have start: "commits fresh = 0"
    by (simp add: commits_def fresh_def)
  have k1: "UPSERT_ONE \<in> {UPSERT_ONE, UPSERT_MANY, POST_REDIRECT_GET}"
    and k2: "POST_REDIRECT_GET \<in> {UPSERT_ONE, UPSERT_MANY, POST_REDIRECT_GET}"
    by simp_all
  note a = integrity_failure_conflict_or_reraise [OF k1, where str = show_nat
      and cfg = sync_config and rm = "ObjModel id_schema" and req = items_request
      and msg = duplicate_message and w = fresh]
  note b = integrity_failure_conflict_or_reraise [OF k2, where str = show_nat
      and cfg = async_config and rm = "ObjModel id_schema" and req = items_request
      and msg = other_message and w = fresh]
  from a have a1: "fst (api_register UPSERT_ONE show_nat sync_config
      (ObjModel id_schema) items_request
      (Raises (IntegrityError [duplicate_message])) fresh)
       = Inr (Resp 409)"
    by (simp add: marker_in_message)
  from a start have a2: "commits (snd (api_register UPSERT_ONE show_nat sync_config
      (ObjModel id_schema) items_request
      (Raises (IntegrityError [duplicate_message])) fresh))
       = 0"
    by simp
  from b have b1: "fst (api_register POST_REDIRECT_GET show_nat
      async_config (ObjModel id_schema) items_request
      (Raises (IntegrityError [other_message])) fresh)
       = Inl (IntegrityError [other_message])"
    by (simp add: marker_not_in_short)
  from k1 marker_in_message a1 a2 marker_not_in_short b1 show ?thesis
    by blast
qed

section \<open>The count header\<close>

lemma single_body:
  "parse_obj_as rm x = Inr b \<Longrightarrow> (\<And>xs. x \<noteq> ListV xs) \<Longrightarrow> \<exists>obj. b = Single obj"
  by (drule parse_obj_as_single) auto

lemma list_body:
  "parse_obj_as rm (ListV xs) = Inr b \<Longrightarrow> \<exists>objs. b = Many objs \<and> length objs = length xs"
  by (drule parse_obj_as_list) (auto dest: validate_all_length)

lemma find_one_body:
  assumes "find_one cfg rm cur w = (Inr (Body b), w')"
  shows "count_header w' = Some ''1'' \<and> (\<exists>obj. b = Single obj)"
  using assms
  by (auto simp: find_one_eq split: list.splits sum.splits dest!: single_body)

lemma update_one_body:
  assumes "update_one cfg rm cur w = (Inr (Body b), w')"
  shows "count_header w' = Some ''1'' \<and> (\<exists>obj. b = Single obj)"
  using assms
  by (auto simp: update_one_eq split: list.splits sum.splits dest!: single_body)

lemma upsert_one_body:
  assumes "upsert_one cfg rm r w = (Inr (Body b), w')"
  shows "count_header w' = Some ''1'' \<and> (\<exists>obj. b = Single obj)"
  using assms
  by (auto simp: upsert_one_eq split: sum.splits dest!: single_body)

lemma delete_one_body:
  assumes "delete_one cfg rm cur w = (Inr (Body b), w')"
  shows "count_header w' = Some ''1'' \<and> (\<exists>obj. b = Single obj)"
proof -
  from assms have nz: "rowcount cur \<noteq> 0"
    by (auto simp: delete_one_eq split: if_splits)
  have "length (rows cur) = 1"
  proof (rule ccontr)
    assume "length (rows cur) \<noteq> 1"
    from delete_one_not_single [OF nz this, of cfg rm w] assms show False by auto
  qed
  then obtain r where "rows cur = [r]" by (cases "rows cur") auto
  from delete_one_single [OF nz this, of cfg rm w] assms show ?thesis
    by (auto simp: key_object_def split: sum.splits dest!: single_body)
qed

lemma find_many_body:
  assumes "find_many cfg rm cur w = (Inr (Body b), w')"
  shows "\<exists>objs. b = Many objs \<and> length objs = length (rows cur)
           \<and> count_header w' = Some (str_nat (length objs))"
  using assms
  by (auto simp: find_many_eq scalars_def split: sum.splits dest!: list_body)

lemma update_many_body:
  assumes "update_many cfg rm cur w = (Inr (Body b), w')"
  shows "\<exists>objs. b = Many objs \<and> length objs = length (rows cur)
           \<and> count_header w' = Some (str_nat (length objs))"
  using assms
  by (auto simp: update_many_eq split: sum.splits if_splits dest!: list_body)

lemma upsert_many_body:
  assumes "upsert_many cfg rm cur w = (Inr (Body b), w')"
  shows "\<exists>objs. b = Many objs \<and> length objs = length (rows cur)
           \<and> count_header w' = Some (str_nat (length objs))"
  using assms
  by (auto simp: upsert_many_eq split: sum.splits dest!: list_body)

lemma delete_many_body:
  assumes "delete_many cfg rm cur w = (Inr (Body b), w')"
  shows "\<exists>objs. b = Many objs \<and> length objs = length (rows cur)
           \<and> count_header w' = Some (str_nat (length objs))"
  using assms
  by (auto simp: delete_many_eq scalars_def split: sum.splits if_splits dest!: list_body)

lemma on_integrity_error_no_body: "on_integrity_error args w \<noteq> (Inr (Body b), w')"
  by (cases args rule: unpack1.cases) (auto simp: on_integrity_error_def io_defs CONFLICT_def)

lemma post_redirect_get_no_body:
  "post_redirect_get str cfg rm r req w \<noteq> (Inr (Body b), w')"
  unfolding post_redirect_get_def
  by (auto simp: io_defs Let_def split: sum.splits option.splits if_splits)

lemma raises_no_body:
  "api_register k str cfg rm req (Raises e) w \<noteq> (Inr (Body b), w')"
  by (cases k; cases e)
    (auto simp: handler_defs exec_raises exec_expire_raises insert_one_raises
      insert_many_raises create_raises on_integrity_error_no_body)


lemma returns_body_cases:
  assumes "api_register k str cfg rm req (Returns cur) w = (Inr (Body b), w')"
  shows "(k \<in> {FIND_ONE, UPSERT_ONE, DELETE_ONE, PATCH_ONE, UPDATE_ONE}
            \<and> count_header w' = Some ''1'' \<and> (\<exists>obj. b = Single obj))
         \<or> (k \<in> {FIND_MANY, UPSERT_MANY, DELETE_MANY, PATCH_MANY, UPDATE_MANY}
            \<and> (\<exists>objs. b = Many objs \<and> length objs = length (rows cur)
                 \<and> count_header w' = Some (str_nat (length objs))))"
proof (cases k)
  case FIND_ONE
  with assms show ?thesis
    by (auto simp: handler_defs exec_returns dest!: find_one_body)
next
  case FIND_MANY
  with assms show ?thesis
    by (auto simp: handler_defs exec_returns dest!: find_many_body)
next
  case UPSERT_ONE
  with assms show ?thesis
    by (auto simp: insert_one_returns split: sum.splits dest!: upsert_one_body)
next
  case UPSERT_MANY
  with assms show ?thesis
    by (auto simp: insert_many_returns dest!: upsert_many_body)
next
  case DELETE_ONE
  with assms show ?thesis
    by (auto simp: handler_defs exec_expire_returns dest!: delete_one_body)
next
  case DELETE_MANY
  with assms show ?thesis
    by (auto simp: handler_defs exec_expire_returns dest!: delete_many_body)
next
  case POST_REDIRECT_GET
  with assms show ?thesis
    by (auto simp: create_returns post_redirect_get_no_body split: sum.splits)
next
  case PATCH_ONE
  with assms show ?thesis
    by (auto simp: handler_defs exec_expire_returns patch_one_eq dest!: update_one_body)
next
  case PATCH_MANY
  with assms show ?thesis
    by (auto simp: handler_defs exec_expire_returns patch_many_eq dest!: update_many_body)
next
  case UPDATE_ONE
  with assms show ?thesis
    by (auto simp: handler_defs exec_expire_returns dest!: update_one_body)
next
  case UPDATE_MANY
  with assms show ?thesis
    by (auto simp: handler_defs exec_expire_returns dest!: update_many_body)
qed

text \<open>
  C1. For every operation kind and every execution outcome on which the handler returns
  a model body (a 200 response, or 201 for the upsert kinds), the \<^verbatim>\<open>x-total-count\<close>
  header is set and equals the number of entities in the body (it is the decimal string of
  that number, and reads back as that number): 1 for the singular kinds,
  whose body is one object, and the length of the returned list for the list-shaped
  kinds, whose body has one object per realized row.
\<close>

theorem count_header_matches_body:
  assumes "api_register k str cfg rm req oc w = (Inr (Body b), w')"
  shows "count_header w' = Some (str_nat (entities b))
         \<and> map_option int_of_str (count_header w') = Some (entities b)
         \<and> http_status k (Body b) \<in> {200, 201}
         \<and> (k \<in> {FIND_ONE, UPSERT_ONE, DELETE_ONE, PATCH_ONE, UPDATE_ONE} \<longrightarrow>
              (\<exists>obj. b = Single obj) \<and> count_header w' = Some ''1'')
         \<and> (k \<in> {FIND_MANY, UPSERT_MANY, DELETE_MANY, PATCH_MANY, UPDATE_MANY} \<longrightarrow>
              (\<exists>cur objs. oc = Returns cur \<and> b = Many objs
                 \<and> length objs = length (rows cur)
                 \<and> count_header w' = Some (str_nat (length objs))))"
proof -
  from assms obtain cur where oc: "oc = Returns cur"
    by (cases oc) (auto simp: raises_no_body)
  from returns_body_cases [OF assms [unfolded oc]] oc show ?thesis
    by (elim disjE conjE exE) (auto simp: int_of_str_str_nat int_of_str_1)
qed


theorem count_header_matches_body_witness:
  "fst (api_register UPSERT_MANY show_nat sync_config (ListModel id_schema) items_request
        (Returns three_rows) fresh)
     = Inr (Body (Many [[(''id'', Some 1)], [(''id'', Some 2)], [(''id'', Some 3)]]))
   \<and> count_header (snd (api_register UPSERT_MANY show_nat sync_config (ListModel id_schema)
        items_request (Returns three_rows) fresh)) = Some ''3''
   \<and> http_status UPSERT_MANY
        (Body (Many [[(''id'', Some 1)], [(''id'', Some 2)], [(''id'', Some (3::nat))]])) = 201
   \<and> fst (api_register FIND_ONE show_nat async_config (ObjModel id_schema) items_request
        (Returns one_row) fresh) = Inr (Body (Single [(''id'', Some 7)]))
   \<and> count_header (snd (api_register FIND_ONE show_nat async_config (ObjModel id_schema)
        items_request (Returns one_row) fresh)) = Some ''1''"
proof -
  let ?many = "api_register UPSERT_MANY show_nat sync_config (ListModel id_schema)
      items_request (Returns three_rows) fresh"
  let ?one = "api_register FIND_ONE show_nat async_config (ObjModel id_schema)
      items_request (Returns one_row) fresh"
  have m: "fst ?many = Inr (Body (Many [[(''id'', Some 1)], [(''id'', Some 2)], [(''id'', Some 3)]]))"
    by (simp add: insert_many_returns upsert_many_eq three_rows_def)
  then have m': "?many
      = (Inr (Body (Many [[(''id'', Some 1)], [(''id'', Some 2)], [(''id'', Some 3)]])), snd ?many)"
    by (simp add: prod_eq_iff)
  have o: "fst ?one = Inr (Body (Single [(''id'', Some 7)]))"
    by (simp add: handler_defs exec_returns find_one_eq one_row_def)
  then have o': "?one = (Inr (Body (Single [(''id'', Some 7)])), snd ?one)"
    by (simp add: prod_eq_iff)
  have three: "str_nat (Suc (Suc (Suc 0))) = ''3''"
    by (simp add: str_nat_digit digit_char_def)
  from count_header_matches_body [OF m'] three
  have mc: "count_header (snd ?many) = Some ''3''"
    by simp
  from count_header_matches_body [OF o']
  have oc: "count_header (snd ?one) = Some ''1''"
    by simp
  from m mc o oc show ?thesis
    by simp
qed

section \<open>The state reached by a success transition\<close>

lemma find_one_world:
  assumes "find_one cfg rm cur w = (Inr (Body b), w')"
  shows "w' = converted_then_counted cfg (str_nat (entities b)) (log ResultRead w)"
  using assms
  by (auto simp: find_one_eq split: list.splits sum.splits dest!: single_body)

lemma upsert_one_world:
  assumes "upsert_one cfg rm r w = (Inr (Body b), w')"
  shows "w' = converted_then_counted cfg (str_nat (entities b)) w"
  using assms
  by (auto simp: upsert_one_eq split: sum.splits dest!: single_body)

lemma update_one_world:
  assumes "update_one cfg rm cur w = (Inr (Body b), w')"
  shows "w' = counted_then_converted cfg (str_nat (entities b)) (log ResultRead w)"
  using assms
  by (auto simp: update_one_eq split: list.splits sum.splits dest!: single_body)

lemma delete_one_world:
  assumes "delete_one cfg rm cur w = (Inr (Body b), w')"
  shows "w' = converted_then_counted cfg (str_nat (entities b)) (log ResultRead w)"
proof -
  from assms have nz: "rowcount cur \<noteq> 0"
    by (auto simp: delete_one_eq split: if_splits)
  have "length (rows cur) = 1"
  proof (rule ccontr)
    assume "length (rows cur) \<noteq> 1"
    from delete_one_not_single [OF nz this, of cfg rm w] assms show False by auto
  qed
  then obtain r where "rows cur = [r]" by (cases "rows cur") auto
  from delete_one_single [OF nz this, of cfg rm w] assms show ?thesis
    by (auto simp: key_object_def split: sum.splits dest!: single_body)
qed

lemma find_many_world:
  assumes "find_many cfg rm cur w = (Inr (Body b), w')"
  shows "w' = converted_then_counted cfg (str_nat (entities b)) (log ResultRead w)"
  using assms
  by (auto simp: find_many_eq scalars_def split: sum.splits dest!: list_body)

lemma upsert_many_world:
  assumes "upsert_many cfg rm cur w = (Inr (Body b), w')"
  shows "w' = converted_then_counted cfg (str_nat (entities b)) (log ResultRead w)"
  using assms
  by (auto simp: upsert_many_eq split: sum.splits dest!: list_body)

lemma delete_many_world:
  assumes "delete_many cfg rm cur w = (Inr (Body b), w')"
  shows "w' = converted_then_counted cfg (str_nat (entities b)) (log ResultRead w)"
  using assms
  by (auto simp: delete_many_eq scalars_def split: sum.splits if_splits dest!: list_body)

lemma update_many_world:
  assumes "update_many cfg rm cur w = (Inr (Body b), w')"
  shows "w' = counted_then_converted cfg (str_nat (entities b)) (log ResultRead w)"
  using assms
  by (auto simp: update_many_eq split: sum.splits if_splits dest!: list_body)

lemma trace_executed_and_expired [simp]:
  "trace (executed_and_expired cfg w)
     = trace w @ (if async_mode cfg then [ExpireAll, StmtRun] else [StmtRun, ExpireAll])"
  by (simp add: executed_and_expired_def)

lemma str_nat_3: "str_nat (Suc (Suc (Suc 0))) = ''3''"
  by (simp add: str_nat_digit digit_char_def)

lemma update_one_sample:
  "api_register UPDATE_ONE show_nat sync_config (ObjModel id_schema) items_request
     (Returns one_row) fresh
   = (Inr (Body (Single [(''id'', Some 7)])),
      counted_then_converted sync_config ''1''
        (log ResultRead (executed_and_expired sync_config fresh)))"
  by (simp add: handler_defs exec_expire_returns update_one_eq one_row_def)

lemma find_many_sample:
  "api_register FIND_MANY show_nat sync_config (ListModel id_schema) items_request
     (Returns three_rows) fresh
   = (Inr (Body (Many [[(''id'', Some 1)], [(''id'', Some 2)], [(''id'', Some 3)]])),
      converted_then_counted sync_config ''3''
        (log ResultRead (executed fresh)))"
  by (simp add: handler_defs exec_returns find_many_eq three_rows_def scalars_def str_nat_3)

section \<open>The redirect after a creation\<close>

lemma scan_routes_single:
  "single_method_routes ep rs \<Longrightarrow>
     scan_routes ep rs found = Inr (found \<or> get_route_registered ep rs)"
proof (induction rs arbitrary: found)
  case Nil
  then show ?case by (simp add: get_route_registered_def)
next
  case (Cons r rs)
  from Cons.prems have rest: "single_method_routes ep rs"
    and one: "route_path r = ep \<longrightarrow> length (route_methods r) = 1"
    by (simp_all add: single_method_routes_def)
  show ?case
  proof (cases "route_path r = ep")
    case False
    with Cons.IH [OF rest] show ?thesis
      by (simp add: get_route_registered_def)
  next
    case True
    with one obtain m where m: "route_methods r = [m]"
      by (cases "route_methods r") auto
    with True Cons.IH [OF rest] show ?thesis
      by (auto simp: get_route_registered_def)
  qed
qed

lemma post_redirect_get_eq:
  assumes "parse_obj_as rm (RowV r) = Inr b"
    and "dict_pop b (primary_name cfg) = Some pk"
    and "single_method_routes (end_point_of cfg req) (app_routes req)"
  shows "post_redirect_get str cfg rm r req w =
     (if get_route_registered (end_point_of cfg req) (app_routes req)
      then (Inr (Redirect (url_path req @ ''/'' @ str pk) 303),
            snd (commit cfg (log SchemaConverted w)))
      else (Inl (FindOneApiNotRegister 404
                  (not_found_message (url_path req) (primary_name cfg))),
            log Rollback (log SchemaConverted w)))"
  using assms scan_routes_single [OF assms(3), of False]
  unfolding post_redirect_get_def
  by (simp add: io_defs parse_eq end_point_of_def SEE_OTHER_def Let_def)

text \<open>
  C4, as amended. For create-and-redirect, after an insert whose one returned row passes
  the response schema and carries the primary key, and when every route registered at
  \<^verbatim>\<open><collection path>/{<primary key name>}\<close> has exactly one method: if none of these
  routes answers GET, the handler rolls the session back and raises the 404
  \<^verbatim>\<open>FindOneApiNotRegister\<close> error without committing; if one answers GET, the handler
  runs the commit step (a commit when autocommit is enabled, none otherwise), does not
  roll back, and returns a 303 redirect to \<^verbatim>\<open><collection path>/<primary key value>\<close>.
\<close>

theorem redirect_after_create:
  assumes "rows cur = [r]"
    and "parse_obj_as rm (RowV r) = Inr b"
    and "dict_pop b (primary_name cfg) = Some pk"
    and "single_method_routes (end_point_of cfg req) (app_routes req)"
  shows "(\<not> get_route_registered (end_point_of cfg req) (app_routes req) \<longrightarrow>
            api_register POST_REDIRECT_GET str cfg rm req (Returns cur) w
              = (Inl (FindOneApiNotRegister 404
                       (not_found_message (url_path req) (primary_name cfg))),
                 log Rollback (log SchemaConverted (log ResultRead (executed w))))
            \<and> commits (snd (api_register POST_REDIRECT_GET str cfg rm req (Returns cur) w))
                = commits w)
         \<and> (get_route_registered (end_point_of cfg req) (app_routes req) \<longrightarrow>
            api_register POST_REDIRECT_GET str cfg rm req (Returns cur) w
              = (Inr (Redirect (url_path req @ ''/'' @ str pk) 303),
                 snd (commit cfg (log SchemaConverted (log ResultRead (executed w)))))
            \<and> http_status POST_REDIRECT_GET
                 (Redirect (url_path req @ ''/'' @ str pk) 303 :: 'v artifact) = 303
            \<and> commits (snd (api_register POST_REDIRECT_GET str cfg rm req (Returns cur) w))
                = (if autocommit cfg then Suc (commits w) else commits w)
            \<and> Rollback \<notin> set (trace (snd (api_register POST_REDIRECT_GET str cfg rm req
                  (Returns cur) w))) - set (trace w))"
  using assms(1) post_redirect_get_eq [OF assms(2-4), of str "log ResultRead (executed w)"]
  by (auto simp: create_returns commit_events_def)


lemma upper_GET [simp]: "upper ''GET'' = ''GET''" "upper ''HEAD'' \<noteq> ''GET''"
  "upper ''DELETE'' \<noteq> ''GET''" "upper ''POST'' \<noteq> ''GET''"
  by (simp_all add: upper_def upper_char_def)

lemma sample_end_point [simp]:
  "end_point_of sync_config items_request = ''/items/{id}''"
  "end_point_of manual_config items_request = ''/items/{id}''"
  "end_point_of sync_config items_request_without_read = ''/items/{id}''"
  "end_point_of sync_config items_request_two_methods = ''/items/{id}''"
  by (simp_all add: end_point_of_def sample_defs)

lemma sample_routes [simp]:
  "app_routes items_request
     = [\<lparr>route_path = ''/items'', route_methods = [''POST'']\<rparr>,
        \<lparr>route_path = ''/items/{id}'', route_methods = [''GET'']\<rparr>]"
  "app_routes items_request_without_read
     = [\<lparr>route_path = ''/items'', route_methods = [''POST'']\<rparr>,
        \<lparr>route_path = ''/items/{id}'', route_methods = [''DELETE'']\<rparr>]"
  "app_routes items_request_two_methods
     = [\<lparr>route_path = ''/items/{id}'', route_methods = [''GET'', ''HEAD'']\<rparr>]"
  by (simp_all add: sample_defs)

lemma show_nat_7 [simp]: "show_nat 7 = ''7''"
  by (simp add: show_nat_def str_nat_digit digit_char_def)

theorem redirect_after_create_witness:
  "rows one_row = [Row 7 []]
   \<and> parse_obj_as (ObjModel id_schema) (RowV (Row 7 [])) = Inr (Single [(''id'', Some 7)])
   \<and> dict_pop (Single [(''id'', Some (7::nat))]) (primary_name sync_config) = Some 7
   \<and> single_method_routes (end_point_of sync_config items_request) (app_routes items_request)
   \<and> get_route_registered (end_point_of sync_config items_request) (app_routes items_request)
   \<and> fst (api_register POST_REDIRECT_GET show_nat sync_config (ObjModel id_schema)
        items_request (Returns one_row) fresh) = Inr (Redirect ''/items/7'' 303)
   \<and> commits (snd (api_register POST_REDIRECT_GET show_nat sync_config (ObjModel id_schema)
        items_request (Returns one_row) fresh)) = 1
   \<and> single_method_routes (end_point_of sync_config items_request_without_read)
        (app_routes items_request_without_read)
   \<and> \<not> get_route_registered (end_point_of sync_config items_request_without_read)
        (app_routes items_request_without_read)
   \<and> fst (api_register POST_REDIRECT_GET show_nat sync_config (ObjModel id_schema)
        items_request_without_read (Returns one_row) fresh)
       = Inl (FindOneApiNotRegister 404 (not_found_message ''/items'' ''id''))
   \<and> trace (snd (api_register POST_REDIRECT_GET show_nat sync_config (ObjModel id_schema)
        items_request_without_read (Returns one_row) fresh))
       = [StmtRun, ResultRead, SchemaConverted, Rollback]"
proof -
  have a1: "rows one_row = [Row 7 []]"
    by (simp add: one_row_def)
  have a2: "parse_obj_as (ObjModel id_schema) (RowV (Row 7 [])) = Inr (Single [(''id'', Some 7)])"
    by simp
  have a3: "dict_pop (Single [(''id'', Some (7::nat))]) (primary_name sync_config) = Some 7"
    by (simp add: sync_config_def)
  have s1: "single_method_routes (end_point_of sync_config items_request)
      (app_routes items_request)"
    by (simp add: single_method_routes_def)
  have g1: "get_route_registered (end_point_of sync_config items_request)
      (app_routes items_request)"
    by (simp add: get_route_registered_def)
  have s2: "single_method_routes (end_point_of sync_config items_request_without_read)
      (app_routes items_request_without_read)"
    by (simp add: single_method_routes_def)
  have g2: "\<not> get_route_registered (end_point_of sync_config items_request_without_read)
      (app_routes items_request_without_read)"
    by (simp add: get_route_registered_def)
  have start: "commits fresh = 0" "trace fresh = []"
    by (simp_all add: commits_def fresh_def)
  have auto_on: "autocommit sync_config"
    by (simp add: sync_config_def)
  have names: "url_path items_request = ''/items''"
    "url_path items_request_without_read = ''/items''" "primary_name sync_config = ''id''"
    by (simp_all add: sample_defs)
  note yes = redirect_after_create [OF a1 a2 a3 s1, where str = show_nat and w = fresh,
      THEN conjunct2, THEN mp, OF g1]
  note no = redirect_after_create [OF a1 a2 a3 s2, where str = show_nat and w = fresh,
      THEN conjunct1, THEN mp, OF g2]
  from yes have y1: "fst (api_register POST_REDIRECT_GET show_nat sync_config
      (ObjModel id_schema) items_request (Returns one_row) fresh)
      = Inr (Redirect ''/items/7'' 303)"
    by (simp add: names)
  from yes start auto_on have y2: "commits (snd (api_register POST_REDIRECT_GET show_nat
      sync_config (ObjModel id_schema) items_request (Returns one_row) fresh)) = 1"
    by simp
  from no have n1: "fst (api_register POST_REDIRECT_GET show_nat sync_config
      (ObjModel id_schema) items_request_without_read (Returns one_row) fresh)
       = Inl (FindOneApiNotRegister 404 (not_found_message ''/items'' ''id''))"
    by (simp add: names)
  from no start have n2: "trace (snd (api_register POST_REDIRECT_GET show_nat sync_config
      (ObjModel id_schema) items_request_without_read (Returns one_row) fresh))
       = [StmtRun, ResultRead, SchemaConverted, Rollback]"
    by simp
  from a1 a2 a3 s1 g1 y1 y2 s2 g2 n1 n2 show ?thesis
    by blast
qed

text \<open>
  The claim as stated fails in two ways. With autocommit disabled and the GET route
  registered, the handler returns the 303 without committing. With a route at the end
  point that answers GET and HEAD, the unpacking of its method set raises
  \<^verbatim>\<open>ValueError\<close>: no redirect, no commit.
\<close>

theorem redirect_commit_counterexample:
  "get_route_registered (end_point_of manual_config items_request) (app_routes items_request)
   \<and> fst (api_register POST_REDIRECT_GET show_nat manual_config (ObjModel id_schema)
        items_request (Returns one_row) fresh) = Inr (Redirect ''/items/7'' 303)
   \<and> trace (snd (api_register POST_REDIRECT_GET show_nat manual_config (ObjModel id_schema)
        items_request (Returns one_row) fresh)) = [StmtRun, ResultRead, SchemaConverted]
   \<and> get_route_registered (end_point_of sync_config items_request_two_methods)
        (app_routes items_request_two_methods)
   \<and> api_register POST_REDIRECT_GET show_nat sync_config (ObjModel id_schema)
        items_request_two_methods (Returns one_row) fresh
       = (Inl ValueError, \<lparr>headers = Map.empty, trace = [StmtRun, ResultRead, SchemaConverted]\<rparr>)"
proof -
  have g1: "get_route_registered (end_point_of manual_config items_request)
      (app_routes items_request)"
    by (simp add: get_route_registered_def)
  have g2: "get_route_registered (end_point_of sync_config items_request_two_methods)
      (app_routes items_request_two_methods)"
    by (simp add: get_route_registered_def)
  have r1: "api_register POST_REDIRECT_GET show_nat manual_config (ObjModel id_schema)
        items_request (Returns one_row) fresh
      = (Inr (Redirect ''/items/7'' 303),
         \<lparr>headers = Map.empty, trace = [StmtRun, ResultRead, SchemaConverted]\<rparr>)"
    by (simp add: create_returns post_redirect_get_def io_defs parse_eq one_row_def
        manual_config_def items_request_def fresh_def executed_def log_def SEE_OTHER_def)
  have r2: "api_register POST_REDIRECT_GET show_nat sync_config (ObjModel id_schema)
        items_request_two_methods (Returns one_row) fresh
       = (Inl ValueError, \<lparr>headers = Map.empty, trace = [StmtRun, ResultRead, SchemaConverted]\<rparr>)"
    by (simp add: create_returns post_redirect_get_def io_defs parse_eq one_row_def
        sync_config_def items_request_two_methods_def fresh_def executed_def log_def)
  from g1 g2 r1 r2 show ?thesis
    by simp
qed

section \<open>Expiry of the session's cached rows\<close>

lemma parse_each_trace: "\<exists>es. trace (snd (parse_each rm xs w)) = trace w @ es"
proof (induction xs arbitrary: w)
  case Nil
  then show ?case by (simp add: return_def)
next
  case (Cons x xs)
  show ?case
  proof (cases "parse_obj_as rm x")
    case (Inl e)
    then show ?thesis by (simp add: bind_def parse_eq)
  next
    case (Inr b)
    from Cons [of "log SchemaConverted w"] obtain es
      where es: "trace (snd (parse_each rm xs (log SchemaConverted w)))
          = trace w @ SchemaConverted # es"
      by auto
    with Inr show ?thesis
      by (cases "parse_each rm xs (log SchemaConverted w)")
        (auto simp: bind_def parse_eq return_def split: sum.splits)
  qed
qed

lemma update_one_reads_first:
  "\<exists>rest. trace (snd (update_one cfg rm cur w)) = trace w @ [ResultRead] @ rest"
  by (auto simp: update_one_eq counted_then_converted_def split: list.splits sum.splits)

lemma update_many_reads_first:
  "\<exists>rest. trace (snd (update_many cfg rm cur w)) = trace w @ [ResultRead] @ rest"
  by (auto simp: update_many_eq counted_then_converted_def split: sum.splits)

lemma delete_many_reads_first:
  "\<exists>rest. trace (snd (delete_many cfg rm cur w)) = trace w @ [ResultRead] @ rest"
  by (auto simp: delete_many_eq converted_then_counted_def split: sum.splits)

lemma delete_one_reads_first:
  "\<exists>rest. trace (snd (delete_one cfg rm cur w)) = trace w @ [ResultRead] @ rest"
proof -
  let ?p = "parse_each rm (map (key_object cfg) (scalars cur)) (log ResultRead w)"
  from parse_each_trace [of rm "map (key_object cfg) (scalars cur)" "log ResultRead w"]
  obtain es where es: "trace (snd ?p) = trace w @ ResultRead # es"
    by auto
  then show ?thesis
    by (cases ?p) (auto simp: delete_one_eq split: sum.splits list.splits)
qed

text \<open>
  C8. In every update, patch and delete handler \<^verbatim>\<open>expire_all\<close> comes before the result
  interpreter reads the cursor. In blocking mode it comes after the statement has run.
  In suspending mode \<^verbatim>\<open>session.execute(stmt)\<close> only creates the coroutine, so
  \<^verbatim>\<open>expire_all\<close> comes before the awaited statement runs: the cached rows are
  invalidated before the mutation, not after it.
\<close>

theorem expire_all_relative_to_statement:
  assumes "k \<in> {UPDATE_ONE, UPDATE_MANY, PATCH_ONE, PATCH_MANY, DELETE_ONE, DELETE_MANY}"
  shows "\<exists>rest. trace (snd (api_register k str cfg rm req (Returns cur) w))
           = trace w @ (if async_mode cfg then [ExpireAll, StmtRun] else [StmtRun, ExpireAll])
               @ [ResultRead] @ rest"
proof -
  let ?w = "executed_and_expired cfg w"
  from assms have "api_register k str cfg rm req (Returns cur) w
      \<in> {update_one cfg rm cur ?w, update_many cfg rm cur ?w, delete_one cfg rm cur ?w,
          delete_many cfg rm cur ?w}"
    by (auto simp: handler_defs exec_expire_returns patch_one_eq patch_many_eq)
  moreover note update_one_reads_first [of cfg rm cur ?w]
    update_many_reads_first [of cfg rm cur ?w]
    delete_one_reads_first [of cfg rm cur ?w]
    delete_many_reads_first [of cfg rm cur ?w]
  ultimately show ?thesis
    by (auto simp: executed_and_expired_def)
qed

theorem expire_all_relative_to_statement_witness:
  "DELETE_ONE \<in> {UPDATE_ONE, UPDATE_MANY, PATCH_ONE, PATCH_MANY, DELETE_ONE, DELETE_MANY}
   \<and> async_mode async_config
   \<and> (\<exists>rest. trace (snd (api_register DELETE_ONE show_nat async_config (ObjModel id_schema)
          items_request (Returns one_row) fresh))
        = trace fresh @ [ExpireAll, StmtRun] @ [ResultRead] @ rest)
   \<and> \<not> async_mode sync_config
   \<and> (\<exists>rest. trace (snd (api_register DELETE_ONE show_nat sync_config (ObjModel id_schema)
          items_request (Returns one_row) fresh))
        = trace fresh @ [StmtRun, ExpireAll] @ [ResultRead] @ rest)"
proof -
  have k: "DELETE_ONE \<in> {UPDATE_ONE, UPDATE_MANY, PATCH_ONE, PATCH_MANY, DELETE_ONE, DELETE_MANY}"
    by simp
  have a: "async_mode async_config" and s: "\<not> async_mode sync_config"
    by (simp_all add: async_config_def sync_config_def)
  from expire_all_relative_to_statement [OF k, where cfg = async_config and str = show_nat
      and rm = "ObjModel id_schema" and req = items_request and cur = one_row and w = fresh] a
  have x: "\<exists>rest. trace (snd (api_register DELETE_ONE show_nat async_config (ObjModel id_schema)
          items_request (Returns one_row) fresh))
        = trace fresh @ [ExpireAll, StmtRun] @ [ResultRead] @ rest"
    by simp
  from expire_all_relative_to_statement [OF k, where cfg = sync_config and str = show_nat
      and rm = "ObjModel id_schema" and req = items_request and cur = one_row and w = fresh] s
  have y: "\<exists>rest. trace (snd (api_register DELETE_ONE show_nat sync_config (ObjModel id_schema)
          items_request (Returns one_row) fresh))
        = trace fresh @ [StmtRun, ExpireAll] @ [ResultRead] @ rest"
    by simp
  from k a s x y show ?thesis
    by blast
qed

section \<open>Order of the success steps\<close>

lemma header_writes_log [simp]:
  "header_writes (log e w) = (if is_header_set e then Suc (header_writes w) else header_writes w)"
  by (simp add: header_writes_def)

lemma header_writes_commit [simp]: "header_writes (snd (commit cfg w)) = header_writes w"
  by (simp add: header_writes_def commit_events_def)

lemma header_writes_executed [simp]: "header_writes (executed w) = header_writes w"
  by (simp add: executed_def)

lemma header_writes_executed_and_expired [simp]:
  "header_writes (executed_and_expired cfg w) = header_writes w"
  by (simp add: executed_and_expired_def)

lemma parse_each_header_writes:
  "header_writes (snd (parse_each rm xs w)) = header_writes w"
proof (induction xs arbitrary: w)
  case Nil
  then show ?case by (simp add: return_def)
next
  case (Cons x xs)
  show ?case
  proof (cases "parse_obj_as rm x")
    case (Inl e)
    then show ?thesis by (simp add: bind_def parse_eq)
  next
    case (Inr b)
    with Cons [of "log SchemaConverted w"] show ?thesis
      by (cases "parse_each rm xs (log SchemaConverted w)")
        (auto simp: bind_def parse_eq return_def split: sum.splits)
  qed
qed

lemma find_one_quiet:
  assumes "\<nexists>b. fst (find_one cfg rm cur w) = Inr (Body b)"
  shows "headers (snd (find_one cfg rm cur w)) = headers w
         \<and> header_writes (snd (find_one cfg rm cur w)) = header_writes w"
  using assms by (auto simp: find_one_eq split: list.splits sum.splits)

lemma find_many_quiet:
  assumes "\<nexists>b. fst (find_many cfg rm cur w) = Inr (Body b)"
  shows "headers (snd (find_many cfg rm cur w)) = headers w
         \<and> header_writes (snd (find_many cfg rm cur w)) = header_writes w"
  using assms by (auto simp: find_many_eq split: sum.splits)

lemma upsert_one_quiet:
  assumes "\<nexists>b. fst (upsert_one cfg rm r w) = Inr (Body b)"
  shows "headers (snd (upsert_one cfg rm r w)) = headers w
         \<and> header_writes (snd (upsert_one cfg rm r w)) = header_writes w"
  using assms by (auto simp: upsert_one_eq split: sum.splits)

lemma upsert_many_quiet:
  assumes "\<nexists>b. fst (upsert_many cfg rm cur w) = Inr (Body b)"
  shows "headers (snd (upsert_many cfg rm cur w)) = headers w
         \<and> header_writes (snd (upsert_many cfg rm cur w)) = header_writes w"
  using assms by (auto simp: upsert_many_eq split: sum.splits)

lemma delete_many_quiet:
  assumes "\<nexists>b. fst (delete_many cfg rm cur w) = Inr (Body b)"
  shows "headers (snd (delete_many cfg rm cur w)) = headers w
         \<and> header_writes (snd (delete_many cfg rm cur w)) = header_writes w"
  using assms by (auto simp: delete_many_eq split: sum.splits if_splits)

lemma delete_one_quiet:
  assumes "\<nexists>b. fst (delete_one cfg rm cur w) = Inr (Body b)"
  shows "headers (snd (delete_one cfg rm cur w)) = headers w
         \<and> header_writes (snd (delete_one cfg rm cur w)) = header_writes w"
proof -
  let ?p = "parse_each rm (map (key_object cfg) (scalars cur)) (log ResultRead w)"
  obtain r1 w1 where p: "?p = (r1, w1)" by (cases ?p)
  from parse_each_result [OF p] have h: "headers w1 = headers w" by simp
  from parse_each_header_writes [of rm "map (key_object cfg) (scalars cur)" "log ResultRead w"] p
  have n: "header_writes w1 = header_writes w" by simp
  from assms p h n show ?thesis
    by (auto simp: delete_one_eq split: sum.splits list.splits if_splits)
qed

lemma on_integrity_error_world: "snd (on_integrity_error args w) = w"
  by (cases args rule: unpack1.cases) (auto simp: on_integrity_error_def io_defs)

lemma post_redirect_get_quiet:
  "headers (snd (post_redirect_get str cfg rm r req w)) = headers w
   \<and> header_writes (snd (post_redirect_get str cfg rm r req w)) = header_writes w"
  unfolding post_redirect_get_def
  by (auto simp: io_defs parse_eq Let_def split: sum.splits option.splits)

lemma post_redirect_get_returns:
  assumes "post_redirect_get str cfg rm r req w = (Inr a, w')"
  shows "(\<exists>url. a = Redirect url 303) \<and> w' = snd (commit cfg (log SchemaConverted w))"
  using assms unfolding post_redirect_get_def
  by (auto simp: io_defs parse_eq Let_def SEE_OTHER_def split: sum.splits option.splits if_splits)


lemma conversion_first_steps:
  assumes "k \<in> {FIND_ONE, FIND_MANY, UPSERT_ONE, UPSERT_MANY, DELETE_ONE, DELETE_MANY}"
    and "api_register k str cfg rm req oc w = (Inr (Body b), w')"
  shows "\<exists>pre. trace w' = trace w @ pre
           @ [SchemaConverted, HeaderSet ''x-total-count'' (str_nat (entities b))]
           @ commit_events cfg
         \<and> set pre \<subseteq> {StmtRun, ExpireAll, ResultRead}"
proof -
  from assms(2) obtain cur where oc: "oc = Returns cur"
    by (cases oc) (auto simp: raises_no_body)
  note run = assms(2) [unfolded oc]
  let ?plain = "converted_then_counted cfg (str_nat (entities b)) (log ResultRead (executed w))"
  let ?expired = "converted_then_counted cfg (str_nat (entities b))
      (log ResultRead (executed_and_expired cfg w))"
  from assms(1) run have "w' = ?plain \<or> w' = ?expired"
    by (auto simp: handler_defs exec_returns exec_expire_returns insert_one_returns
        insert_many_returns split: sum.splits
        dest!: find_one_world find_many_world upsert_one_world upsert_many_world
          delete_one_world delete_many_world)
  then show ?thesis
  proof
    assume "w' = ?plain"
    then show ?thesis
      by (intro exI [of _ "[StmtRun, ResultRead]"]) simp
  next
    assume "w' = ?expired"
    then show ?thesis
      by (intro exI [of _ "(if async_mode cfg then [ExpireAll, StmtRun]
            else [StmtRun, ExpireAll]) @ [ResultRead]"]) simp
  qed
qed

lemma header_first_steps:
  assumes "k \<in> {UPDATE_ONE, UPDATE_MANY, PATCH_ONE, PATCH_MANY}"
    and "api_register k str cfg rm req oc w = (Inr (Body b), w')"
  shows "w' = counted_then_converted cfg (str_nat (entities b))
           (log ResultRead (executed_and_expired cfg w))"
proof -
  from assms(2) obtain cur where oc: "oc = Returns cur"
    by (cases oc) (auto simp: raises_no_body)
  from assms(1) assms(2) [unfolded oc] show ?thesis
    by (auto simp: handler_defs exec_expire_returns patch_one_eq patch_many_eq
        dest!: update_one_world update_many_world)
qed

lemma conversion_first_quiet:
  assumes "k \<in> {FIND_ONE, FIND_MANY, UPSERT_ONE, UPSERT_MANY, DELETE_ONE, DELETE_MANY}"
    and "\<nexists>b. fst (api_register k str cfg rm req oc w) = Inr (Body b)"
  shows "headers (snd (api_register k str cfg rm req oc w)) = headers w
         \<and> header_writes (snd (api_register k str cfg rm req oc w)) = header_writes w"
proof (cases oc)
  case (Raises e)
  with assms(1) show ?thesis
    by (cases e)
      (auto simp: handler_defs exec_raises exec_expire_raises insert_one_raises
        insert_many_raises on_integrity_error_world)
next
  case (Returns cur)
  note quiet = find_one_quiet [of cfg rm cur "executed w"]
    find_many_quiet [of cfg rm cur "executed w"]
    upsert_many_quiet [of cfg rm cur "executed w"]
    delete_one_quiet [of cfg rm cur "executed_and_expired cfg w"]
    delete_many_quiet [of cfg rm cur "executed_and_expired cfg w"]
  show ?thesis
  proof (cases "k = UPSERT_ONE")
    case True
    show ?thesis
    proof (cases "unpack1 (rows cur)")
      case (Inl e)
      with True Returns show ?thesis
        by (simp add: insert_one_returns)
    next
      case (Inr r)
      with True Returns assms(2)
        upsert_one_quiet [of cfg rm r "log ResultRead (executed w)"]
      show ?thesis
        by (simp add: insert_one_returns)
    qed
  next
    case False
    with assms Returns quiet show ?thesis
      by (auto simp: handler_defs exec_returns exec_expire_returns insert_many_returns)
  qed
qed

lemma redirect_quiet:
  "headers (snd (api_register POST_REDIRECT_GET str cfg rm req oc w)) = headers w
   \<and> header_writes (snd (api_register POST_REDIRECT_GET str cfg rm req oc w))
       = header_writes w"
proof (cases oc)
  case (Raises e)
  then show ?thesis
    by (cases e) (auto simp: create_raises on_integrity_error_world)
next
  case (Returns cur)
  show ?thesis
  proof (cases "unpack1 (rows cur)")
    case (Inl e)
    with Returns show ?thesis by (simp add: create_returns)
  next
    case (Inr r)
    with Returns post_redirect_get_quiet [of str cfg rm r req "log ResultRead (executed w)"]
    show ?thesis by (simp add: create_returns)
  qed
qed

lemma redirect_steps:
  assumes "api_register POST_REDIRECT_GET str cfg rm req (Returns cur) w = (Inr a, w')"
  shows "(\<exists>url. a = Redirect url 303)
         \<and> trace w' = trace w @ [StmtRun, ResultRead, SchemaConverted] @ commit_events cfg"
proof (cases "unpack1 (rows cur)")
  case (Inl e)
  with assms show ?thesis by (simp add: create_returns)
next
  case (Inr r)
  with assms have "post_redirect_get str cfg rm r req (log ResultRead (executed w)) = (Inr a, w')"
    by (simp add: create_returns)
  from post_redirect_get_returns [OF this] show ?thesis
    by auto
qed

text \<open>
  C2, as amended. For find-one, find-many, upsert-one, upsert-many, delete-one and
  delete-many, on every outcome for which the handler returns a model body the success
  transition first converts the rows into the response schema, then sets
  \<^verbatim>\<open>x-total-count\<close>, then runs the commit step (a commit when autocommit is enabled,
  nothing otherwise), and on every other outcome of these kinds (a failed conversion
  among them) no header is written: the count header is never set before the conversion
  has succeeded. For update-one, update-many, patch-one and patch-many, on every outcome
  for which the handler returns a model body the commit step comes last, after the
  conversion has succeeded and the count header has been set. Create-and-redirect never
  writes a header; when it returns its redirect, the commit step comes after the
  conversion.
\<close>

theorem success_steps_in_order:
  "(k \<in> {FIND_ONE, FIND_MANY, UPSERT_ONE, UPSERT_MANY, DELETE_ONE, DELETE_MANY} \<longrightarrow>
      (\<forall>b. fst (api_register k str cfg rm req oc w) = Inr (Body b) \<longrightarrow>
         (\<exists>pre. trace (snd (api_register k str cfg rm req oc w)) = trace w @ pre
            @ [SchemaConverted, HeaderSet ''x-total-count'' (str_nat (entities b))]
            @ commit_events cfg
          \<and> set pre \<subseteq> {StmtRun, ExpireAll, ResultRead}))
      \<and> ((\<nexists>b. fst (api_register k str cfg rm req oc w) = Inr (Body b)) \<longrightarrow>
           headers (snd (api_register k str cfg rm req oc w)) = headers w
           \<and> header_writes (snd (api_register k str cfg rm req oc w)) = header_writes w))
   \<and> (k \<in> {UPDATE_ONE, UPDATE_MANY, PATCH_ONE, PATCH_MANY} \<longrightarrow>
      (\<forall>b. fst (api_register k str cfg rm req oc w) = Inr (Body b) \<longrightarrow>
         (\<exists>steps. trace (snd (api_register k str cfg rm req oc w)) = trace w @ steps
            @ commit_events cfg
          \<and> SchemaConverted \<in> set steps
          \<and> HeaderSet ''x-total-count'' (str_nat (entities b)) \<in> set steps
          \<and> Commit \<notin> set steps \<and> Rollback \<notin> set steps)))
   \<and> (k = POST_REDIRECT_GET \<longrightarrow>
      headers (snd (api_register k str cfg rm req oc w)) = headers w
      \<and> header_writes (snd (api_register k str cfg rm req oc w)) = header_writes w
      \<and> (\<forall>cur a. oc = Returns cur \<and> fst (api_register k str cfg rm req oc w) = Inr a \<longrightarrow>
           (\<exists>url. a = Redirect url 303)
           \<and> trace (snd (api_register k str cfg rm req oc w))
               = trace w @ [StmtRun, ResultRead, SchemaConverted] @ commit_events cfg))"
proof (intro conjI impI allI)
  fix b
  assume "k \<in> {FIND_ONE, FIND_MANY, UPSERT_ONE, UPSERT_MANY, DELETE_ONE, DELETE_MANY}"
    and "fst (api_register k str cfg rm req oc w) = Inr (Body b)"
  then show "\<exists>pre. trace (snd (api_register k str cfg rm req oc w)) = trace w @ pre
            @ [SchemaConverted, HeaderSet ''x-total-count'' (str_nat (entities b))]
            @ commit_events cfg
          \<and> set pre \<subseteq> {StmtRun, ExpireAll, ResultRead}"
    by (intro conversion_first_steps) (simp_all add: prod_eq_iff)
next
  assume "k \<in> {FIND_ONE, FIND_MANY, UPSERT_ONE, UPSERT_MANY, DELETE_ONE, DELETE_MANY}"
    and "\<nexists>b. fst (api_register k str cfg rm req oc w) = Inr (Body b)"
  from conversion_first_quiet [OF this]
  show "headers (snd (api_register k str cfg rm req oc w)) = headers w"
    and "header_writes (snd (api_register k str cfg rm req oc w)) = header_writes w"
    by simp_all
next
  fix b
  assume k: "k \<in> {UPDATE_ONE, UPDATE_MANY, PATCH_ONE, PATCH_MANY}"
    and "fst (api_register k str cfg rm req oc w) = Inr (Body b)"
  then have "api_register k str cfg rm req oc w
      = (Inr (Body b), snd (api_register k str cfg rm req oc w))"
    by (simp add: prod_eq_iff)
  from header_first_steps [OF k this]
  show "\<exists>steps. trace (snd (api_register k str cfg rm req oc w)) = trace w @ steps
            @ commit_events cfg
          \<and> SchemaConverted \<in> set steps
          \<and> HeaderSet ''x-total-count'' (str_nat (entities b)) \<in> set steps
          \<and> Commit \<notin> set steps \<and> Rollback \<notin> set steps"
    by (intro exI [of _ "(if async_mode cfg then [ExpireAll, StmtRun]
          else [StmtRun, ExpireAll])
          @ [ResultRead, HeaderSet ''x-total-count'' (str_nat (entities b)), SchemaConverted]"])
      simp
next
  assume "k = POST_REDIRECT_GET"
  with redirect_quiet [of str cfg rm req oc w]
  show "headers (snd (api_register k str cfg rm req oc w)) = headers w"
    and "header_writes (snd (api_register k str cfg rm req oc w)) = header_writes w"
    by simp_all
next
  fix cur a
  assume k: "k = POST_REDIRECT_GET"
    and r: "oc = Returns cur \<and> fst (api_register k str cfg rm req oc w) = Inr a"
  from r have oc: "oc = Returns cur"
    and res: "fst (api_register k str cfg rm req oc w) = Inr a"
    by blast+
  from res have "api_register POST_REDIRECT_GET str cfg rm req (Returns cur) w
      = (Inr a, snd (api_register POST_REDIRECT_GET str cfg rm req (Returns cur) w))"
    unfolding k oc by (simp add: prod_eq_iff)
  from redirect_steps [OF this] k oc
  show "\<exists>url. a = Redirect url 303"
    and "trace (snd (api_register k str cfg rm req oc w))
               = trace w @ [StmtRun, ResultRead, SchemaConverted] @ commit_events cfg"
    by simp_all
qed


lemma find_one_failing_sample:
  "api_register FIND_ONE show_nat sync_config (ObjModel no_schema) items_request
     (Returns one_row) fresh
   = (Inl ValidationError, log ResultRead (executed fresh))"
  by (simp add: handler_defs exec_returns find_one_eq one_row_def no_schema_def)

lemma redirect_sample:
  "api_register POST_REDIRECT_GET show_nat sync_config (ObjModel id_schema) items_request
     (Returns one_row) fresh
   = (Inr (Redirect ''/items/7'' 303),
      snd (commit sync_config (log SchemaConverted (log ResultRead (executed fresh)))))"
proof -
  have "parse_obj_as (ObjModel id_schema) (RowV (Row 7 [])) = Inr (Single [(''id'', Some 7)])"
    by simp
  moreover have "dict_pop (Single [(''id'', Some (7::nat))]) (primary_name sync_config) = Some 7"
    by (simp add: sync_config_def)
  moreover have "single_method_routes (end_point_of sync_config items_request)
      (app_routes items_request)"
    by (simp add: single_method_routes_def)
  moreover have "get_route_registered (end_point_of sync_config items_request)
      (app_routes items_request)"
    by (simp add: get_route_registered_def)
  ultimately have "post_redirect_get show_nat sync_config (ObjModel id_schema) (Row 7 [])
      items_request (log ResultRead (executed fresh))
      = (Inr (Redirect (url_path items_request @ ''/'' @ show_nat 7) 303),
         snd (commit sync_config (log SchemaConverted (log ResultRead (executed fresh)))))"
    by (simp add: post_redirect_get_eq)
  moreover have "url_path items_request = ''/items''"
    by (simp add: items_request_def)
  ultimately show ?thesis
    by (simp add: create_returns one_row_def)
qed

theorem success_steps_in_order_witness:
  "FIND_MANY \<in> {FIND_ONE, FIND_MANY, UPSERT_ONE, UPSERT_MANY, DELETE_ONE, DELETE_MANY}
   \<and> fst (api_register FIND_MANY show_nat sync_config (ListModel id_schema) items_request
        (Returns three_rows) fresh)
       = Inr (Body (Many [[(''id'', Some 1)], [(''id'', Some 2)], [(''id'', Some 3)]]))
   \<and> (\<exists>pre. trace (snd (api_register FIND_MANY show_nat sync_config (ListModel id_schema)
          items_request (Returns three_rows) fresh))
        = trace fresh @ pre @ [SchemaConverted, HeaderSet ''x-total-count'' ''3''] @ [Commit]
        \<and> set pre \<subseteq> {StmtRun, ExpireAll, ResultRead})
   \<and> FIND_ONE \<in> {FIND_ONE, FIND_MANY, UPSERT_ONE, UPSERT_MANY, DELETE_ONE, DELETE_MANY}
   \<and> fst (api_register FIND_ONE show_nat sync_config (ObjModel no_schema) items_request
        (Returns one_row) fresh) = Inl ValidationError
   \<and> headers (snd (api_register FIND_ONE show_nat sync_config (ObjModel no_schema)
        items_request (Returns one_row) fresh)) = headers fresh
   \<and> header_writes (snd (api_register FIND_ONE show_nat sync_config (ObjModel no_schema)
        items_request (Returns one_row) fresh)) = 0
   \<and> UPDATE_ONE \<in> {UPDATE_ONE, UPDATE_MANY, PATCH_ONE, PATCH_MANY}
   \<and> fst (api_register UPDATE_ONE show_nat sync_config (ObjModel id_schema) items_request
        (Returns one_row) fresh) = Inr (Body (Single [(''id'', Some 7)]))
   \<and> (\<exists>steps. trace (snd (api_register UPDATE_ONE show_nat sync_config (ObjModel id_schema)
          items_request (Returns one_row) fresh)) = trace fresh @ steps @ [Commit]
        \<and> SchemaConverted \<in> set steps \<and> HeaderSet ''x-total-count'' ''1'' \<in> set steps
        \<and> Commit \<notin> set steps \<and> Rollback \<notin> set steps)
   \<and> fst (api_register POST_REDIRECT_GET show_nat sync_config (ObjModel id_schema)
        items_request (Returns one_row) fresh) = Inr (Redirect ''/items/7'' 303)
   \<and> header_writes (snd (api_register POST_REDIRECT_GET show_nat sync_config
        (ObjModel id_schema) items_request (Returns one_row) fresh)) = 0
   \<and> trace (snd (api_register POST_REDIRECT_GET show_nat sync_config (ObjModel id_schema)
        items_request (Returns one_row) fresh))
       = trace fresh @ [StmtRun, ResultRead, SchemaConverted] @ [Commit]"
proof -
  note t = success_steps_in_order [where str = show_nat and cfg = sync_config
      and req = items_request and w = fresh]
  have ce: "commit_events sync_config = [Commit]"
    by (simp add: commit_events_def sync_config_def)
  have start: "header_writes fresh = 0"
    by (simp add: header_writes_def fresh_def)
  have k1: "FIND_MANY \<in> {FIND_ONE, FIND_MANY, UPSERT_ONE, UPSERT_MANY, DELETE_ONE, DELETE_MANY}"
    and k2: "FIND_ONE \<in> {FIND_ONE, FIND_MANY, UPSERT_ONE, UPSERT_MANY, DELETE_ONE, DELETE_MANY}"
    and k3: "UPDATE_ONE \<in> {UPDATE_ONE, UPDATE_MANY, PATCH_ONE, PATCH_MANY}"
    by simp_all
  let ?many = "api_register FIND_MANY show_nat sync_config (ListModel id_schema) items_request
      (Returns three_rows) fresh"
  let ?fail = "api_register FIND_ONE show_nat sync_config (ObjModel no_schema) items_request
      (Returns one_row) fresh"
  let ?upd = "api_register UPDATE_ONE show_nat sync_config (ObjModel id_schema) items_request
      (Returns one_row) fresh"
  let ?post = "api_register POST_REDIRECT_GET show_nat sync_config (ObjModel id_schema)
      items_request (Returns one_row) fresh"
  have m: "fst ?many = Inr (Body (Many [[(''id'', Some 1)], [(''id'', Some 2)], [(''id'', Some 3)]]))"
    by (simp only: find_many_sample fst_conv)
  from t [where k = FIND_MANY and rm = "ListModel id_schema" and oc = "Returns three_rows",
      THEN conjunct1, THEN mp, OF k1, THEN conjunct1, THEN spec, THEN mp, OF m]
  have m': "\<exists>pre. trace (snd ?many)
        = trace fresh @ pre @ [SchemaConverted, HeaderSet ''x-total-count'' ''3''] @ [Commit]
        \<and> set pre \<subseteq> {StmtRun, ExpireAll, ResultRead}"
    by (simp add: ce str_nat_3)
  have f: "fst ?fail = Inl ValidationError"
    by (simp only: find_one_failing_sample fst_conv)
  then have nb: "\<nexists>b. fst ?fail = Inr (Body b)"
    by simp
  from t [where k = FIND_ONE and rm = "ObjModel no_schema" and oc = "Returns one_row",
      THEN conjunct1, THEN mp, OF k2, THEN conjunct2, THEN mp, OF nb] start
  have f': "headers (snd ?fail) = headers fresh" "header_writes (snd ?fail) = 0"
    by simp_all
  have u: "fst ?upd = Inr (Body (Single [(''id'', Some 7)]))"
    by (simp only: update_one_sample fst_conv)
  from t [where k = UPDATE_ONE and rm = "ObjModel id_schema" and oc = "Returns one_row",
      THEN conjunct2, THEN conjunct1, THEN mp, OF k3, THEN spec, THEN mp, OF u]
  have u': "\<exists>steps. trace (snd ?upd) = trace fresh @ steps @ [Commit]
        \<and> SchemaConverted \<in> set steps \<and> HeaderSet ''x-total-count'' ''1'' \<in> set steps
        \<and> Commit \<notin> set steps \<and> Rollback \<notin> set steps"
    by (simp add: ce)
  have p: "fst ?post = Inr (Redirect ''/items/7'' 303)"
    by (simp only: redirect_sample fst_conv)
  note post = t [where k = POST_REDIRECT_GET and rm = "ObjModel id_schema"
      and oc = "Returns one_row", THEN conjunct2, THEN conjunct2, THEN mp, OF refl]
  from post [THEN conjunct2, THEN conjunct1] start
  have p1: "header_writes (snd ?post) = 0"
    by simp
  have both: "Returns one_row = Returns one_row \<and> fst ?post = Inr (Redirect ''/items/7'' 303)"
    using p by simp
  from post [THEN conjunct2, THEN conjunct2, THEN spec, THEN spec, THEN mp, OF both]
  have p2: "trace (snd ?post) = trace fresh @ [StmtRun, ResultRead, SchemaConverted] @ [Commit]"
    by (simp add: ce)
  from k1 m m' k2 f f' k3 u u' p p1 p2 show ?thesis
    by blast
qed

text \<open>
  The claim as stated for every kind fails in three ways. Update-one writes the count
  header before the conversion, on a row that passes the schema and on a row that fails
  it (the header is then set although no conversion has succeeded). Create-and-redirect
  returns its redirect without a count header. With autocommit disabled, find-one returns
  its body without a commit.
\<close>

theorem header_before_conversion_counterexample:
  "fst (api_register UPDATE_ONE show_nat sync_config (ObjModel id_schema) items_request
        (Returns one_row) fresh) = Inr (Body (Single [(''id'', Some 7)]))
   \<and> trace (snd (api_register UPDATE_ONE show_nat sync_config (ObjModel id_schema)
        items_request (Returns one_row) fresh))
       = [StmtRun, ExpireAll, ResultRead, HeaderSet ''x-total-count'' ''1'', SchemaConverted,
          Commit]
   \<and> fst (api_register UPDATE_ONE show_nat sync_config (ObjModel no_schema) items_request
        (Returns one_row) fresh) = Inl ValidationError
   \<and> count_header (snd (api_register UPDATE_ONE show_nat sync_config (ObjModel no_schema)
        items_request (Returns one_row) fresh)) = Some ''1''
   \<and> trace (snd (api_register UPDATE_ONE show_nat sync_config (ObjModel no_schema)
        items_request (Returns one_row) fresh))
       = [StmtRun, ExpireAll, ResultRead, HeaderSet ''x-total-count'' ''1'']
   \<and> fst (api_register POST_REDIRECT_GET show_nat sync_config (ObjModel id_schema)
        items_request (Returns one_row) fresh) = Inr (Redirect ''/items/7'' 303)
   \<and> count_header (snd (api_register POST_REDIRECT_GET show_nat sync_config
        (ObjModel id_schema) items_request (Returns one_row) fresh)) = None
   \<and> fst (api_register FIND_ONE show_nat manual_config (ObjModel id_schema) items_request
        (Returns one_row) fresh) = Inr (Body (Single [(''id'', Some 7)]))
   \<and> trace (snd (api_register FIND_ONE show_nat manual_config (ObjModel id_schema)
        items_request (Returns one_row) fresh))
       = [StmtRun, ResultRead, SchemaConverted, HeaderSet ''x-total-count'' ''1'']"
proof -
  have upd: "fst (api_register UPDATE_ONE show_nat sync_config (ObjModel id_schema)
        items_request (Returns one_row) fresh) = Inr (Body (Single [(''id'', Some 7)]))
   \<and> trace (snd (api_register UPDATE_ONE show_nat sync_config (ObjModel id_schema)
        items_request (Returns one_row) fresh))
       = [StmtRun, ExpireAll, ResultRead, HeaderSet ''x-total-count'' ''1'', SchemaConverted,
          Commit]
   \<and> fst (api_register UPDATE_ONE show_nat sync_config (ObjModel no_schema) items_request
        (Returns one_row) fresh) = Inl ValidationError
   \<and> count_header (snd (api_register UPDATE_ONE show_nat sync_config (ObjModel no_schema)
        items_request (Returns one_row) fresh)) = Some ''1''
   \<and> trace (snd (api_register UPDATE_ONE show_nat sync_config (ObjModel no_schema)
        items_request (Returns one_row) fresh))
       = [StmtRun, ExpireAll, ResultRead, HeaderSet ''x-total-count'' ''1'']"
    by (simp add: handler_defs exec_expire_returns update_one_eq one_row_def no_schema_def
        sync_config_def fresh_def commit_events_def count_header_def)
  have post: "fst (api_register POST_REDIRECT_GET show_nat sync_config (ObjModel id_schema)
        items_request (Returns one_row) fresh) = Inr (Redirect ''/items/7'' 303)
   \<and> count_header (snd (api_register POST_REDIRECT_GET show_nat sync_config
        (ObjModel id_schema) items_request (Returns one_row) fresh)) = None"
  proof -
    have "count_header fresh = None"
      by (simp add: count_header_def fresh_def)
    then show ?thesis
      by (simp only: redirect_sample fst_conv snd_conv) (simp add: count_header_def)
  qed
  have find: "fst (api_register FIND_ONE show_nat manual_config (ObjModel id_schema)
        items_request (Returns one_row) fresh) = Inr (Body (Single [(''id'', Some 7)]))
   \<and> trace (snd (api_register FIND_ONE show_nat manual_config (ObjModel id_schema)
        items_request (Returns one_row) fresh))
       = [StmtRun, ResultRead, SchemaConverted, HeaderSet ''x-total-count'' ''1'']"
    by (simp add: handler_defs exec_returns find_one_eq one_row_def manual_config_def
        fresh_def commit_events_def)
  from upd post find show ?thesis
    by blast
qed

end
